(* ===== verification/Prelude.thy ===== *)
theory Prelude
  imports Main
begin

text \<open>
  Shared vocabulary of the development.  The program (\<^verbatim>\<open>app.py\<close>) is a Python script, so
  every Python exception it can raise is a constructor of \<open>py_error\<close>, every fallible
  computation returns a value of \<open>'a result = py_error + 'a\<close> (\<open>Inl\<close> is the exception),
  and code that changes the world (files, the screen, external services) is a function
  \<open>'s \<Rightarrow> 'a result \<times> 's\<close> of type \<open>('s, 'a) act\<close>: the state after an exception is
  kept, as Python keeps every effect that happened before the raise.
  The collection \<open>py_simps\<close> gathers the evaluation rules of the models of Python
  builtins (string methods, dictionary and list subscripts) so that component proofs
  can say \<open>simp add: py_simps\<close>.
\<close>

named_theorems py_simps "evaluation rules of the models of Python builtins"

section \<open>Python exceptions\<close>

text \<open>
  The exception classes that the script can raise on some input.  \<open>KeyError\<close> carries
  the missing key, as Python's does; the others are identified by their class.
  \<open>HTTPError\<close> stands for every exception of \<^verbatim>\<open>requests.get\<close> (connection refused, DNS
  failure, timeout), \<open>LLMError\<close> for every exception of the chat-model client, and
  \<open>OSError\<close> for a failure of \<^verbatim>\<open>subprocess.run\<close> to start the alarm script.
\<close>

datatype py_error =
    KeyError string
  | IndexError
  | TypeError
  | AttributeError
  | ValueError
  | ZeroDivisionError
  | FileNotFoundError
  | EmptyDataError
  | ParserError
  | JSONDecodeError
  | HTTPError
  | LLMError
  | OSError

type_synonym 'a result = "py_error + 'a"

definition rbind :: "'a result \<Rightarrow> ('a \<Rightarrow> 'b result) \<Rightarrow> 'b result" where
  "rbind r f = (case r of Inl e \<Rightarrow> Inl e | Inr a \<Rightarrow> f a)"

lemma rbind_simps [simp]:
  "rbind (Inl e) f = Inl e"
  "rbind (Inr a) f = f a"
  by (simp_all add: rbind_def)

lemma rbind_eq_Inr [simp]:
  "rbind r f = Inr b \<longleftrightarrow> (\<exists>a. r = Inr a \<and> f a = Inr b)"
  by (cases r) simp_all

lemma rbind_eq_Inl:
  "rbind r f = Inl e \<longleftrightarrow> r = Inl e \<or> (\<exists>a. r = Inr a \<and> f a = Inl e)"
  by (cases r) simp_all

section \<open>World-passing actions\<close>

text \<open>
  An action runs on a state and returns a result together with the new state.  A raised
  exception stops the actions that follow (\<open>act_bind\<close> passes it on) but keeps the
  state reached so far.
\<close>

type_synonym ('s, 'a) act = "'s \<Rightarrow> 'a result \<times> 's"

definition act_return :: "'a \<Rightarrow> ('s, 'a) act" where
  "act_return a s = (Inr a, s)"

definition act_raise :: "py_error \<Rightarrow> ('s, 'a) act" where
  "act_raise e s = (Inl e, s)"

definition act_lift :: "'a result \<Rightarrow> ('s, 'a) act" where
  "act_lift r s = (r, s)"

definition act_bind :: "('s, 'a) act \<Rightarrow> ('a \<Rightarrow> ('s, 'b) act) \<Rightarrow> ('s, 'b) act" where
  "act_bind m f s = (case m s of (Inl e, s') \<Rightarrow> (Inl e, s') | (Inr a, s') \<Rightarrow> f a s')"

definition act_seq :: "('s, 'a) act \<Rightarrow> ('s, 'b) act \<Rightarrow> ('s, 'b) act" where
  "act_seq m n = act_bind m (\<lambda>_. n)"

lemma act_simps [simp]:
  "act_return a s = (Inr a, s)"
  "act_raise e s = (Inl e, s)"
  "act_lift r s = (r, s)"
  by (simp_all add: act_return_def act_raise_def act_lift_def)

lemma act_bind_apply [simp]:
  "m s = (Inr a, s') \<Longrightarrow> act_bind m f s = f a s'"
  "m s = (Inl e, s') \<Longrightarrow> act_bind m f s = (Inl e, s')"
  by (simp_all add: act_bind_def)

lemma act_seq_apply [simp]:
  "m s = (Inr a, s') \<Longrightarrow> act_seq m n s = n s'"
  "m s = (Inl e, s') \<Longrightarrow> act_seq m n s = (Inl e, s')"
  by (simp_all add: act_seq_def)

lemma act_bind_lift [simp]:
  "act_bind (act_lift (Inr a)) f = f a"
  "act_bind (act_lift (Inl e)) f = act_raise e"
  by (simp_all add: act_bind_def fun_eq_iff)

lemma act_bind_return [simp]: "act_bind (act_return a) f = f a"
  by (simp add: act_bind_def fun_eq_iff)

text \<open>Inversion: a composition that returns normally ran each part normally.\<close>

lemma act_bind_InrD:
  "act_bind m f s = (Inr b, s') \<Longrightarrow> \<exists>a s1. m s = (Inr a, s1) \<and> f a s1 = (Inr b, s')"
  by (auto simp: act_bind_def split: prod.splits sum.splits)

lemma act_seq_InrD:
  "act_seq m n s = (Inr b, s') \<Longrightarrow> \<exists>a s1. m s = (Inr a, s1) \<and> n s1 = (Inr b, s')"
  unfolding act_seq_def by (rule act_bind_InrD)

section \<open>Text\<close>

text \<open>The newline character, as Python's \<^verbatim>\<open>"\n"\<close>.\<close>

definition nl :: string where
  "nl = [CHR 0x0A]"

end
