(* ===== verification/PyStr.thy ===== *)
theory PyStr
  imports Prelude
begin

text \<open>
  Models of the Python builtins on strings and lists that the script calls:
  \<^verbatim>\<open>str.split(sep)\<close>, \<^verbatim>\<open>sep.join(xs)\<close>, \<^verbatim>\<open>str.rstrip()\<close>, \<^verbatim>\<open>xs[i]\<close> and
  \<^verbatim>\<open>str(n)\<close> for integers.  A Python \<^verbatim>\<open>str\<close> is a sequence of code points; here a
  \<open>char\<close> is read as a code point below 256 (the Latin-1 block), which is where all the
  literals of the script live.  The lemmas are the laws of these builtins that the
  components need: splitting and joining are inverse, the first piece of a split is the
  text before the first separator, \<^verbatim>\<open>rstrip\<close> removes exactly the trailing white space.
\<close>

section \<open>Substring test\<close>

text \<open>\<open>contains sep s\<close> is Python's \<^verbatim>\<open>sep in s\<close>.\<close>

fun contains :: "string \<Rightarrow> string \<Rightarrow> bool" where
  "contains sep [] = (sep = [])"
| "contains sep (c # cs) = (take (length sep) (c # cs) = sep \<or> contains sep cs)"

lemma contains_Nil [simp]: "contains [] s"
  by (cases s) simp_all

lemma contains_ConsD: "\<not> contains sep (c # cs) \<Longrightarrow> \<not> contains sep cs"
  by simp

lemma take_sep_eq: "take (length sep) s = sep \<Longrightarrow> s = sep @ drop (length sep) s"
  by (metis append_take_drop_id)

lemma take_prefix_append:
  assumes "take (length p) xs = p"
  shows "take (length p) (xs @ ys) = p"
proof -
  from assms have "xs @ ys = p @ (drop (length p) xs @ ys)"
    using take_sep_eq by (metis append.assoc)
  then have "take (length p) (xs @ ys) = take (length p) (p @ (drop (length p) xs @ ys))"
    by (rule arg_cong)
  then show ?thesis by simp
qed

lemma contains_append_left: "contains sep xs \<Longrightarrow> contains sep (xs @ ys)"
proof (induction xs)
  case Nil
  then show ?case by (cases sep) simp_all
next
  case (Cons c cs)
  then show ?case using take_prefix_append [of sep "c # cs" ys] by auto
qed

lemma contains_shorter: "length s < length sep \<Longrightarrow> \<not> contains sep s"
proof (induction s)
  case Nil
  then show ?case by simp
next
  case (Cons c cs)
  then show ?case by auto
qed

section \<open>Indexing\<close>

text \<open>
  \<^verbatim>\<open>xs[i]\<close>: negative indices count from the end, an index out of range raises
  \<^verbatim>\<open>IndexError\<close> (never the unspecified \<open>xs ! i\<close> of HOL).
\<close>

definition py_index :: "'a list \<Rightarrow> int \<Rightarrow> 'a result" where
  "py_index xs i =
     (let k = (if i < 0 then i + int (length xs) else i)
      in if k < 0 \<or> int (length xs) \<le> k then Inl IndexError else Inr (xs ! nat k))"

lemma py_index_0 [simp, py_simps]:
  "py_index [] 0 = Inl IndexError"
  "py_index (x # xs) 0 = Inr x"
  by (simp_all add: py_index_def)

lemma py_index_1 [simp, py_simps]:
  "py_index [x] 1 = Inl IndexError"
  "py_index (x # y # ys) 1 = Inr y"
  by (simp_all add: py_index_def)

lemma py_index_last [simp, py_simps]:
  "xs \<noteq> [] \<Longrightarrow> py_index xs (-1) = Inr (last xs)"
  by (cases xs rule: rev_cases) (simp_all add: py_index_def nth_append)

lemma py_index_last_Nil [simp, py_simps]: "py_index [] (-1) = Inl IndexError"
  by (simp add: py_index_def)

section \<open>\<^verbatim>\<open>str.split(sep)\<close>\<close>

text \<open>
  CPython scans the string from the left and cuts at every non-overlapping occurrence
  of the separator; there is no limit on the number of pieces unless \<^verbatim>\<open>maxsplit\<close> is
  given, and \<^verbatim>\<open>"".split(sep)\<close> is \<^verbatim>\<open>[""]\<close>.  An empty separator raises
  \<^verbatim>\<open>ValueError\<close>.  \<open>split_go sep acc s\<close> scans \<open>s\<close> with the current piece, reversed,
  in \<open>acc\<close>.
\<close>

fun split_go :: "string \<Rightarrow> string \<Rightarrow> string \<Rightarrow> string list" where
  "split_go sep acc [] = [rev acc]"
| "split_go sep acc (c # cs) =
     (if sep \<noteq> [] \<and> take (length sep) (c # cs) = sep
      then rev acc # split_go sep [] (drop (length sep - 1) cs)
      else split_go sep (c # acc) cs)"

definition py_split :: "string \<Rightarrow> string \<Rightarrow> string list result" where
  "py_split s sep = (if sep = [] then Inl ValueError else Inr (split_go sep [] s))"

text \<open>\<^verbatim>\<open>sep.join(xs)\<close>.\<close>

fun py_join :: "string \<Rightarrow> string list \<Rightarrow> string" where
  "py_join sep [] = []"
| "py_join sep [x] = x"
| "py_join sep (x # y # zs) = x @ sep @ py_join sep (y # zs)"

lemma split_go_not_Nil [simp]: "split_go sep acc s \<noteq> []"
  by (induction sep acc s rule: split_go.induct) simp_all

lemma split_go_sep [simp]:
  "sep \<noteq> [] \<Longrightarrow> split_go sep acc (sep @ t) = rev acc # split_go sep [] t"
  by (cases sep) simp_all

text \<open>Joining the pieces with the separator gives the string back: no text is lost.\<close>

lemma py_join_split_go:
  "sep \<noteq> [] \<Longrightarrow> py_join sep (split_go sep acc s) = rev acc @ s"
proof (induction sep acc s rule: split_go.induct)
  case (1 sep acc)
  then show ?case by simp
next
  case (2 sep acc c cs)
  show ?case
  proof (cases "take (length sep) (c # cs) = sep")
    case True
    let ?r = "drop (length sep - 1) cs"
    obtain p ps where ps: "split_go sep [] ?r = p # ps"
      by (cases "split_go sep [] ?r") simp_all
    from True "2.prems" have cs: "c # cs = sep @ ?r"
      using take_sep_eq [of sep "c # cs"] by (cases sep) simp_all
    have "py_join sep (split_go sep [] ?r) = ?r"
      using "2.IH"(1) "2.prems" True by simp
    then have "py_join sep (split_go sep acc (c # cs)) = rev acc @ sep @ ?r"
      using True "2.prems" ps by simp
    then show ?thesis using cs by simp
  next
    case False
    then show ?thesis using "2.IH"(2) "2.prems" by simp
  qed
qed

text \<open>A string without the separator is one piece.\<close>

lemma split_go_no_sep:
  "\<not> contains sep s \<Longrightarrow> split_go sep acc s = [rev acc @ s]"
proof (induction sep acc s rule: split_go.induct)
  case (1 sep acc)
  then show ?case by simp
next
  case (2 sep acc c cs)
  then show ?case by (cases "sep = []") auto
qed

lemma take_butlast_sep:
  assumes "k < length sep"
  shows "take k (butlast sep @ ys) = take k (sep @ zs)"
proof -
  have "k \<le> length (butlast sep)" using assms by simp
  then show ?thesis using assms by (simp add: take_butlast)
qed

lemma take_sep_across:
  assumes "sep \<noteq> []" and "w \<noteq> []"
  shows "take (length sep) (w @ sep @ y) = take (length sep) (w @ butlast sep)"
proof -
  let ?k = "length sep - length w"
  have k: "?k < length sep" using assms by (cases w) simp_all
  have "take ?k (sep @ y) = take ?k sep" by simp
  moreover have "take ?k (butlast sep) = take ?k sep" using k by (simp add: take_butlast)
  ultimately show ?thesis by (simp only: take_append)
qed

text \<open>
  The first piece of a split is the text before the first occurrence of the separator,
  when the separator does not begin inside that text.
\<close>

lemma split_go_append:
  assumes "sep \<noteq> []" and "\<not> contains sep (x @ butlast sep)"
  shows "split_go sep acc (x @ sep @ y) = (rev acc @ x) # split_go sep [] y"
  using assms(2)
proof (induction x arbitrary: acc)
  case Nil
  then show ?case using assms(1) by simp
next
  case (Cons c x)
  have ncont: "take (length sep) ((c # x) @ butlast sep) \<noteq> sep"
    using Cons.prems by simp
  then have "take (length sep) ((c # x) @ sep @ y) \<noteq> sep"
    using take_sep_across [OF assms(1), of "c # x" y] by simp
  then have "split_go sep acc ((c # x) @ sep @ y) = split_go sep (c # acc) (x @ sep @ y)"
    by simp
  also have "\<dots> = (rev (c # acc) @ x) # split_go sep [] y"
    using Cons.IH Cons.prems by simp
  finally show ?case by simp
qed

lemma py_split_ok [simp, py_simps]:
  "sep \<noteq> [] \<Longrightarrow> py_split s sep = Inr (split_go sep [] s)"
  by (simp add: py_split_def)

text \<open>A string that contains the separator splits into at least two pieces.\<close>

lemma split_go_contains:
  "sep \<noteq> [] \<Longrightarrow> contains sep s \<Longrightarrow> \<exists>p q ps. split_go sep acc s = p # q # ps"
proof (induction sep acc s rule: split_go.induct)
  case (1 sep acc)
  then show ?case by simp
next
  case (2 sep acc c cs)
  show ?case
  proof (cases "take (length sep) (c # cs) = sep")
    case True
    obtain q qs where "split_go sep [] (drop (length sep - 1) cs) = q # qs"
      by (cases "split_go sep [] (drop (length sep - 1) cs)") simp_all
    then show ?thesis using True "2.prems" by simp
  next
    case False
    then show ?thesis using "2.IH"(2) "2.prems" by simp
  qed
qed

lemma contains_iff:
  "sep \<noteq> [] \<Longrightarrow> contains sep s \<longleftrightarrow> (\<exists>i < length s. take (length sep) (drop i s) = sep)"
proof (induction s)
  case Nil
  then show ?case by simp
next
  case (Cons c cs)
  then show ?case by (auto simp: less_Suc_eq_0_disj)
qed

text \<open>
  No piece of a split contains the separator: the scan would have cut there.  The
  invariant is that no occurrence of the separator starts inside the current piece.
\<close>

lemma split_go_sep_free_gen:
  "sep \<noteq> [] \<Longrightarrow> \<forall>i < length acc. take (length sep) (drop i (rev acc @ s)) \<noteq> sep \<Longrightarrow>
   \<forall>p \<in> set (split_go sep acc s). \<not> contains sep p"
proof (induction sep acc s rule: split_go.induct)
  case (1 sep acc)
  then show ?case by (auto simp: contains_iff)
next
  case (2 sep acc c cs)
  have acc_free: "\<not> contains sep (rev acc)"
  proof
    assume "contains sep (rev acc)"
    then obtain i where i: "i < length acc" "take (length sep) (drop i (rev acc)) = sep"
      using "2.prems"(1) by (auto simp: contains_iff)
    then have "take (length sep) (drop i (rev acc) @ c # cs) = sep"
      using take_prefix_append by blast
    then show False using "2.prems"(2) i(1) by simp
  qed
  show ?case
  proof (cases "take (length sep) (c # cs) = sep")
    case True
    then show ?thesis using "2.IH"(1) "2.prems"(1) acc_free by simp
  next
    case False
    have "\<forall>i < length (c # acc). take (length sep) (drop i (rev (c # acc) @ cs)) \<noteq> sep"
    proof (intro allI impI)
      fix i assume "i < length (c # acc)"
      then consider "i < length acc" | "i = length acc" by fastforce
      then show "take (length sep) (drop i (rev (c # acc) @ cs)) \<noteq> sep"
      proof cases
        case 1
        then show ?thesis using "2.prems"(2) by simp
      next
        case 2
        then show ?thesis using False by simp
      qed
    qed
    then show ?thesis using "2.IH"(2) False "2.prems"(1) by simp
  qed
qed

lemma split_go_sep_free:
  "sep \<noteq> [] \<Longrightarrow> p \<in> set (split_go sep [] s) \<Longrightarrow> \<not> contains sep p"
  using split_go_sep_free_gen [of sep "[]" s] by simp

section \<open>\<^verbatim>\<open>str.rstrip()\<close>\<close>

text \<open>
  \<^verbatim>\<open>str.isspace\<close> on the code points below 256: tab, line feed, vertical tab, form
  feed, carriage return, the four information separators \<^verbatim>\<open>\x1c\<close>--\<^verbatim>\<open>\x1f\<close>, space,
  next line \<^verbatim>\<open>\x85\<close> and no-break space \<^verbatim>\<open>\xa0\<close>.
\<close>

definition py_isspace :: "char \<Rightarrow> bool" where
  "py_isspace c =
     (let n = of_char c :: nat in (9 \<le> n \<and> n \<le> 13) \<or> (28 \<le> n \<and> n \<le> 32) \<or> n = 133 \<or> n = 160)"

definition py_rstrip :: "string \<Rightarrow> string" where
  "py_rstrip s = rev (dropWhile py_isspace (rev s))"

lemma py_rstrip_append: "s = py_rstrip s @ rev (takeWhile py_isspace (rev s))"
proof -
  have "rev s = takeWhile py_isspace (rev s) @ dropWhile py_isspace (rev s)"
    by simp
  then have "s = rev (dropWhile py_isspace (rev s)) @ rev (takeWhile py_isspace (rev s))"
    by (metis rev_append rev_rev_ident)
  then show ?thesis by (simp add: py_rstrip_def)
qed

lemma py_rstrip_no_trailing_space:
  "py_rstrip s \<noteq> [] \<Longrightarrow> \<not> py_isspace (last (py_rstrip s))"
proof -
  assume ne: "py_rstrip s \<noteq> []"
  then have "dropWhile py_isspace (rev s) \<noteq> []" by (simp add: py_rstrip_def)
  then have "\<not> py_isspace (hd (dropWhile py_isspace (rev s)))"
    by (rule hd_dropWhile)
  then show ?thesis using ne by (simp add: py_rstrip_def last_rev)
qed

lemma dropWhile_idem [simp]: "dropWhile P (dropWhile P xs) = dropWhile P xs"
  by (induction xs) simp_all

lemma py_rstrip_idem: "py_rstrip (py_rstrip s) = py_rstrip s"
  by (simp add: py_rstrip_def)

section \<open>\<^verbatim>\<open>str(n)\<close> for integers\<close>

fun nat_digits :: "nat \<Rightarrow> string" where
  "nat_digits n =
     (if n < 10 then [char_of (48 + n)] else nat_digits (n div 10) @ [char_of (48 + n mod 10)])"

declare nat_digits.simps [simp del]

definition py_str_int :: "int \<Rightarrow> string" where
  "py_str_int i = (if i < 0 then CHR ''-'' # nat_digits (nat (- i)) else nat_digits (nat i))"

definition is_digit :: "char \<Rightarrow> bool" where
  "is_digit c = (48 \<le> (of_char c :: nat) \<and> (of_char c :: nat) \<le> 57)"

lemma is_digit_char_of: "(d::nat) < 10 \<Longrightarrow> is_digit (char_of (48 + d))"
  by (simp add: is_digit_def of_char_of)

lemma nat_digits_are_digits: "\<forall>c \<in> set (nat_digits n). is_digit c"
proof (induction n rule: nat_digits.induct)
  case (1 n)
  then show ?case
    by (subst nat_digits.simps) (auto intro: is_digit_char_of)
qed

lemma nat_digits_not_Nil [simp]: "nat_digits n \<noteq> []"
  by (subst nat_digits.simps) simp

end
