(* ===== verification/Json.thy ===== *)
theory Json
  imports PyStr
begin

text \<open>
  The JSON documents the Directions service answers with, as \<^verbatim>\<open>json.loads\<close> turns them
  into Python values (\<^verbatim>\<open>response.json()\<close> in \<^verbatim>\<open>get_eta\<close>): \<^verbatim>\<open>null\<close>, booleans,
  integers, strings, arrays and objects.  An object keeps its members in document order;
  a key that occurs twice keeps its last value, as the Python dictionary built by
  \<^verbatim>\<open>json.loads\<close> does.  Numbers with a fraction or an exponent (Python floats) are not
  modelled: the service reports durations in whole seconds.
  The operations are Python's subscripts \<^verbatim>\<open>d['k']\<close> and \<^verbatim>\<open>xs[0]\<close>, the bound method
  \<^verbatim>\<open>d.get\<close> and floor division \<^verbatim>\<open>//\<close>, each with the exception Python raises on a
  value of the wrong type.
\<close>

datatype json =
    JNull
  | JBool bool
  | JInt int
  | JStr string
  | JList "json list"
  | JObj "(string \<times> json) list"

definition obj_lookup :: "(string \<times> json) list \<Rightarrow> string \<Rightarrow> json option" where
  "obj_lookup kvs k = map_of (rev kvs) k"

text \<open>\<^verbatim>\<open>v[k]\<close> with a string key: a dictionary raises \<^verbatim>\<open>KeyError\<close> for a missing key,
  every other value raises \<^verbatim>\<open>TypeError\<close> (lists and strings take integer indices only,
  \<^verbatim>\<open>None\<close>, booleans and integers are not subscriptable).\<close>

fun json_getkey :: "json \<Rightarrow> string \<Rightarrow> json result" where
  "json_getkey (JObj kvs) k = (case obj_lookup kvs k of None \<Rightarrow> Inl (KeyError k) | Some v \<Rightarrow> Inr v)"
| "json_getkey _ k = Inl TypeError"

text \<open>\<^verbatim>\<open>v[i]\<close> with an integer index: a list is indexed, a string gives the
  one-character string at \<open>i\<close>, a dictionary looks up the key \<open>i\<close>, which a JSON object
  never has (its keys are strings).\<close>

fun json_getidx :: "json \<Rightarrow> int \<Rightarrow> json result" where
  "json_getidx (JList xs) i = py_index xs i"
| "json_getidx (JStr s) i = rbind (py_index s i) (\<lambda>c. Inr (JStr [c]))"
| "json_getidx (JObj kvs) i = Inl (KeyError (py_str_int i))"
| "json_getidx _ i = Inl TypeError"

text \<open>The bound method \<^verbatim>\<open>v.get\<close>: only a dictionary has it (\<^verbatim>\<open>AttributeError\<close> otherwise);
  calling it with a key and a default returns the member or the default.\<close>

fun json_get_method :: "json \<Rightarrow> (string \<Rightarrow> json \<Rightarrow> json) result" where
  "json_get_method (JObj kvs) =
     Inr (\<lambda>k d. case obj_lookup kvs k of None \<Rightarrow> d | Some v \<Rightarrow> v)"
| "json_get_method _ = Inl AttributeError"

text \<open>\<^verbatim>\<open>v // m\<close> on the values a duration can hold: integers floor-divide (HOL's \<open>div\<close>
  on \<open>int\<close> rounds towards minus infinity, as Python does), a boolean counts as 0 or 1,
  anything else raises \<^verbatim>\<open>TypeError\<close>; \<open>m = 0\<close> raises \<^verbatim>\<open>ZeroDivisionError\<close>.\<close>

fun py_floordiv :: "json \<Rightarrow> int \<Rightarrow> int result" where
  "py_floordiv (JInt n) m = (if m = 0 then Inl ZeroDivisionError else Inr (n div m))"
| "py_floordiv (JBool b) m = (if m = 0 then Inl ZeroDivisionError else Inr ((if b then 1 else 0) div m))"
| "py_floordiv _ m = Inl TypeError"

lemma obj_lookup_Cons [simp, py_simps]:
  "obj_lookup ((k, v) # kvs) k' = (case obj_lookup kvs k' of None \<Rightarrow> (if k = k' then Some v else None) | Some w \<Rightarrow> Some w)"
  by (simp add: obj_lookup_def map_add_def split: option.splits)

lemma obj_lookup_Nil [simp, py_simps]: "obj_lookup [] k = None"
  by (simp add: obj_lookup_def)

lemma json_getkey_Inr [py_simps]:
  "json_getkey v k = Inr w \<longleftrightarrow> (\<exists>kvs. v = JObj kvs \<and> obj_lookup kvs k = Some w)"
  by (cases v) (auto split: option.splits)

end
