(* ===== verification/World.thy ===== *)
theory World
  imports Json
begin

text \<open>
  The world the script acts on, and the external services it calls.
  \<^item> \<open>world\<close>: the file system (absolute path to the rows of a CSV file, \<open>None\<close> for no
    file) and the list of observable events in the order they happen: what the
    Streamlit page shows, what is printed on standard output, and every request sent to
    an external service (an HTTP GET, a chat-model call, a process started).
  \<^item> \<open>ext\<close>: the working directory, the process environment and the \<^verbatim>\<open>.env\<close>
    file from which the two API keys are read (\<open>load_dotenv\<close>, lines 17--20;
    \<^verbatim>\<open>os.getenv\<close> gives \<^verbatim>\<open>None\<close> when a key is unset), and the answers of the
    external services as functions of the request: the Directions endpoint, the chat
    model and the \<^verbatim>\<open>./setAlarm.sh\<close> process.  Every theorem is stated for all such
    functions, so nothing is assumed of the services.
\<close>

text \<open>The Python values a DataFrame cell holds in the script: a string, \<^verbatim>\<open>None\<close>
  (an unanswered select box), a float NaN (an empty or \<^verbatim>\<open>"NA"\<close>-like cell read back by
  \<^verbatim>\<open>pandas.read_csv\<close>) and a \<^verbatim>\<open>datetime.time\<close> (a time widget).\<close>

record py_time =
  hour :: nat
  minute :: nat
  second :: nat

datatype pyval = PStr string | PNone | PNaN | PTime py_time

text \<open>An HTTP response: its status code and its body decoded by \<^verbatim>\<open>response.json()\<close>
  (\<open>None\<close> when the body is not JSON, where \<^verbatim>\<open>json()\<close> raises).\<close>

record http_response =
  status_code :: int
  body :: "json option"

datatype event =
    Title string
  | Markdown string
  | Write string
  | TextArea string string
  | Info string
  | Success string
  | PrintStatusError json
  | PrintText string
  | HttpGet string
  | LlmCall string
  | Exec "string list"

text \<open>A CSV file as its rows of cells, header row first; \<open>[]\<close> is an empty file.\<close>

type_synonym csv_table = "string list list"

record world =
  files :: "string \<Rightarrow> csv_table option"
  events :: "event list"

text \<open>The surroundings of a run: the working directory, the process environment before
  \<^verbatim>\<open>load_dotenv()\<close>, the variables of the \<^verbatim>\<open>.env\<close> file it finds, and the
  external services.\<close>

record ext =
  cwd :: string
  environ :: "string \<Rightarrow> string option"
  dotenv :: "string \<Rightarrow> string option"
  http :: "string \<Rightarrow> http_response result"
  llm :: "string \<Rightarrow> string result"
  alarm :: "string list \<Rightarrow> int result"

text \<open>Lines 17--20: \<^verbatim>\<open>load_dotenv()\<close> adds the variables of \<^verbatim>\<open>.env\<close> that the
  environment does not already set (it does not override), then \<^verbatim>\<open>os.getenv\<close> reads
  the two keys, \<^verbatim>\<open>None\<close> when unset.\<close>

definition load_dotenv :: "ext \<Rightarrow> string \<Rightarrow> string option" where
  "load_dotenv e k = (case environ e k of Some v \<Rightarrow> Some v | None \<Rightarrow> dotenv e k)"

definition openai_api_key :: "ext \<Rightarrow> string option" where
  "openai_api_key e = load_dotenv e ''OPENAI_API_KEY''"

definition google_maps_api_key :: "ext \<Rightarrow> string option" where
  "google_maps_api_key e = load_dotenv e ''GOOGLE_MAPS_API_KEY''"

definition emit :: "event \<Rightarrow> (world, unit) act" where
  "emit ev w = (Inr (), w\<lparr>events := events w @ [ev]\<rparr>)"

text \<open>A call of an external service: the request is recorded, then the answer (or the
  exception) of the service is returned.\<close>

definition call :: "event \<Rightarrow> 'a result \<Rightarrow> (world, 'a) act" where
  "call ev r w = (r, w\<lparr>events := events w @ [ev]\<rparr>)"

text \<open>The processes started, in order: the argument vectors of the \<open>Exec\<close> events.\<close>

fun execs :: "event list \<Rightarrow> string list list" where
  "execs [] = []"
| "execs (Exec argv # evs) = argv # execs evs"
| "execs (_ # evs) = execs evs"

text \<open>The prompts sent to the chat model, in order.\<close>

fun prompts_sent :: "event list \<Rightarrow> string list" where
  "prompts_sent [] = []"
| "prompts_sent (LlmCall p # evs) = p # prompts_sent evs"
| "prompts_sent (_ # evs) = prompts_sent evs"

lemma prompts_sent_append [simp]: "prompts_sent (xs @ ys) = prompts_sent xs @ prompts_sent ys"
  by (induction xs rule: prompts_sent.induct) simp_all

lemma execs_append [simp]: "execs (xs @ ys) = execs xs @ execs ys"
  by (induction xs rule: execs.induct) simp_all

lemma emit_apply [simp]: "emit ev w = (Inr (), w\<lparr>events := events w @ [ev]\<rparr>)"
  by (simp add: emit_def)

lemma call_apply [simp]: "call ev r w = (r, w\<lparr>events := events w @ [ev]\<rparr>)"
  by (simp add: call_def)

text \<open>Sample inputs for the witnesses: an empty world, and surroundings with no keys set
  whose services all fail except the alarm script, which exits with status 1.\<close>

definition world0 :: world where
  "world0 = \<lparr>files = (\<lambda>_. None), events = []\<rparr>"

definition sample_ext :: ext where
  "sample_ext = \<lparr>cwd = ''/app'', environ = (\<lambda>_. None), dotenv = (\<lambda>_. None), http = (\<lambda>_. Inl HTTPError),
     llm = (\<lambda>_. Inl LLMError), alarm = (\<lambda>_. Inr 1)\<rparr>"

end
