(* ===== verification/Decision.thy ===== *)
theory Decision
  imports World
begin

text \<open>
  The Decision Parser and the Action Trigger (\<^verbatim>\<open>app.py\<close>, lines 191--203): the answer
  of the second chat-model call is split on \<^verbatim>\<open>", "\<close>; the first piece compared with
  \<^verbatim>\<open>"TRUE"\<close> decides whether the alarm changes, the second piece is the new wake-up
  time; a change runs \<^verbatim>\<open>./setAlarm.sh\<close> with that time and reports success, no change
  shows an information message.  \<open>render_decision\<close> is the canonical answer the
  prompt asks for (\<^verbatim>\<open>TRUE, <time>\<close> or \<^verbatim>\<open>FALSE\<close>).  The lemmas give the parser's
  result on every input, the one input where it raises, the invariant of its results,
  its round trip with the canonical form, and what the trigger does.
\<close>

record decision =
  change_alarm :: bool
  new_wake_up_time :: "string option"

definition parse_decision :: "string \<Rightarrow> decision result" where
  "parse_decision output2 =
     rbind (py_split output2 '', '') (\<lambda>output2_split.
     rbind (py_index output2_split 0) (\<lambda>first.
       if first = ''TRUE''
       then rbind (py_index output2_split 1)
              (\<lambda>t. Inr \<lparr>change_alarm = True, new_wake_up_time = Some t\<rparr>)
       else Inr \<lparr>change_alarm = False, new_wake_up_time = None\<rparr>))"

definition render_decision :: "decision \<Rightarrow> string" where
  "render_decision d =
     (if change_alarm d
      then ''TRUE, '' @ (case new_wake_up_time d of None \<Rightarrow> [] | Some t \<Rightarrow> t)
      else ''FALSE'')"

definition decision_wf :: "decision \<Rightarrow> bool" where
  "decision_wf d = (change_alarm d = (new_wake_up_time d \<noteq> None))"

definition alarm_argv :: "string \<Rightarrow> string list" where
  "alarm_argv t = [''./setAlarm.sh'', t]"

definition trigger_alarm :: "ext \<Rightarrow> decision \<Rightarrow> (world, unit) act" where
  "trigger_alarm e d =
     (if change_alarm d
      then (case new_wake_up_time d of
              None \<Rightarrow> act_raise TypeError
            | Some t \<Rightarrow>
                act_bind (call (Exec (alarm_argv t)) (alarm e (alarm_argv t)))
                  (\<lambda>_. emit (Success (''Alarm has been set to '' @ t @ ''.''))))
      else emit (Info ''Nothing to change, you should be all set!''))"

section \<open>The parser, piece by piece\<close>

abbreviation comma_sep :: string where
  "comma_sep \<equiv> '', ''"

lemma parse_decision_pieces:
  "parse_decision s =
     (case split_go comma_sep [] s of
        [] \<Rightarrow> Inl IndexError
      | p # ps \<Rightarrow>
          (if p = ''TRUE''
           then (case ps of [] \<Rightarrow> Inl IndexError
                 | t # _ \<Rightarrow> Inr \<lparr>change_alarm = True, new_wake_up_time = Some t\<rparr>)
           else Inr \<lparr>change_alarm = False, new_wake_up_time = None\<rparr>))"
  by (auto simp: parse_decision_def split: list.splits)

lemma split_comma_TRUE:
  "split_go comma_sep [] (''TRUE, '' @ t) = ''TRUE'' # split_go comma_sep [] t"
  using split_go_append [of comma_sep "''TRUE''" "[]" t] by simp

lemma split_comma_no_sep:
  "\<not> contains comma_sep t \<Longrightarrow> split_go comma_sep [] t = [t]"
  using split_go_no_sep [of comma_sep t "[]"] by simp

lemma split_go_singleton:
  "sep \<noteq> [] \<Longrightarrow> split_go sep [] s = [p] \<Longrightarrow> s = p"
  using py_join_split_go [of sep "[]" s] by simp

lemma split_go_two:
  assumes "sep \<noteq> []" and "split_go sep [] s = p # q # ps"
  shows "s = p @ sep @ py_join sep (q # ps)"
  using py_join_split_go [of sep "[]" s] assms by simp

lemma parse_decision_Inl_TRUE: "parse_decision s = Inl e \<Longrightarrow> s = ''TRUE'' \<and> e = IndexError"
proof -
  assume "parse_decision s = Inl e"
  then have "split_go comma_sep [] s = [''TRUE'']" and "e = IndexError"
    by (auto simp: parse_decision_pieces split: list.splits if_splits)
  then show "s = ''TRUE'' \<and> e = IndexError"
    using split_go_singleton [of comma_sep s "''TRUE''"] by simp
qed

lemma parse_decision_change_time:
  "parse_decision s = Inr d \<Longrightarrow> change_alarm d \<Longrightarrow> \<exists>t. new_wake_up_time d = Some t"
  by (auto simp: parse_decision_pieces split: list.splits if_splits)

text \<open>With an alarm script that always exits, the trigger returns on every decision that
  carries a time when it asks for a change.\<close>

lemma trigger_alarm_returns:
  assumes "\<forall>v. \<exists>c. alarm e v = Inr c" and "change_alarm d \<Longrightarrow> \<exists>t. new_wake_up_time d = Some t"
  shows "\<exists>w'. trigger_alarm e d w = (Inr (), w')"
proof (cases "change_alarm d")
  case True
  then obtain t where t: "new_wake_up_time d = Some t" using assms(2) by blast
  obtain c where "alarm e (alarm_argv t) = Inr c" using assms(1) by blast
  then show ?thesis using True t by (simp add: trigger_alarm_def act_bind_def)
next
  case False
  then show ?thesis by (simp add: trigger_alarm_def)
qed

lemma parse_decision_TRUE_prefix:
  "parse_decision (''TRUE, '' @ t) =
     Inr \<lparr>change_alarm = True, new_wake_up_time = Some (hd (split_go comma_sep [] t))\<rparr>"
proof -
  obtain p ps where "split_go comma_sep [] t = p # ps"
    by (cases "split_go comma_sep [] t") simp_all
  then show ?thesis by (simp add: parse_decision_pieces split_comma_TRUE)
qed

lemma parse_decision_not_TRUE:
  "split_go comma_sep [] s = p # ps \<Longrightarrow> p \<noteq> ''TRUE'' \<Longrightarrow>
   parse_decision s = Inr \<lparr>change_alarm = False, new_wake_up_time = None\<rparr>"
  by (simp add: parse_decision_pieces)

section \<open>Properties of the parser\<close>

text \<open>
  C4: an answer in the canonical form \<^verbatim>\<open>TRUE, <time>\<close>, with a time that does not
  itself contain \<^verbatim>\<open>", "\<close>, is parsed as a change of the alarm to exactly that time.
\<close>

theorem parse_decision_true:
  "\<not> contains comma_sep t \<Longrightarrow>
   parse_decision (''TRUE, '' @ t) = Inr \<lparr>change_alarm = True, new_wake_up_time = Some t\<rparr>"
  using parse_decision_TRUE_prefix [of t] split_comma_no_sep [of t] by simp

theorem parse_decision_true_witness:
  "\<not> contains comma_sep ''7:30am'' \<and>
   parse_decision ''TRUE, 7:30am'' = Inr \<lparr>change_alarm = True, new_wake_up_time = Some ''7:30am''\<rparr>"
  using parse_decision_true [of "''7:30am''"] by simp

text \<open>
  C14: the parser raises on exactly one answer: \<^verbatim>\<open>"TRUE"\<close> with no time after it,
  where \<^verbatim>\<open>output2_split[1]\<close> raises \<^verbatim>\<open>IndexError\<close>.  Every other answer,
  \<^verbatim>\<open>"FALSE"\<close> without a comma included, is parsed without an exception.
\<close>

theorem parse_decision_raises:
  "parse_decision s = Inl e \<longleftrightarrow> s = ''TRUE'' \<and> e = IndexError"
proof
  assume "parse_decision s = Inl e"
  then show "s = ''TRUE'' \<and> e = IndexError" by (rule parse_decision_Inl_TRUE)
next
  assume "s = ''TRUE'' \<and> e = IndexError"
  then show "parse_decision s = Inl e" by (simp add: parse_decision_def)
qed

text \<open>
  C15: every decision the parser returns satisfies the invariant of the Decision type:
  a new wake-up time is present if and only if the alarm is to change.
\<close>

theorem parse_decision_wf:
  "parse_decision s = Inr d \<Longrightarrow> decision_wf d"
  by (auto simp: parse_decision_pieces decision_wf_def split: list.splits if_splits)

theorem parse_decision_wf_witness:
  "parse_decision ''FALSE'' = Inr \<lparr>change_alarm = False, new_wake_up_time = None\<rparr> \<and>
   decision_wf \<lparr>change_alarm = False, new_wake_up_time = None\<rparr>"
proof -
  have p: "parse_decision ''FALSE'' = Inr \<lparr>change_alarm = False, new_wake_up_time = None\<rparr>"
    by (simp add: parse_decision_def)
  show ?thesis using p parse_decision_wf [OF p] by simp
qed

text \<open>
  C16: the alarm changes exactly when the answer starts with the literal
  \<^verbatim>\<open>"TRUE, "\<close>: the comparison is case-sensitive, so \<^verbatim>\<open>"true, 7:30am"\<close> is no change.
\<close>

theorem parse_decision_change_iff:
  assumes "parse_decision s = Inr d"
  shows "change_alarm d \<longleftrightarrow> (\<exists>t. s = ''TRUE, '' @ t)"
proof
  assume ch: "change_alarm d"
  from assms ch obtain q qs where "split_go comma_sep [] s = ''TRUE'' # q # qs"
    by (auto simp: parse_decision_pieces split: list.splits if_splits)
  then have "s = ''TRUE, '' @ py_join comma_sep (q # qs)"
    using split_go_two [of comma_sep s "''TRUE''" q qs] by simp
  then show "\<exists>t. s = ''TRUE, '' @ t" by blast
next
  assume "\<exists>t. s = ''TRUE, '' @ t"
  then obtain t where "s = ''TRUE, '' @ t" by blast
  then show "change_alarm d" using assms parse_decision_TRUE_prefix [of t] by simp
qed

theorem parse_decision_change_iff_witness:
  "parse_decision ''true, 7:30am'' = Inr \<lparr>change_alarm = False, new_wake_up_time = None\<rparr> \<and>
   \<not> (\<exists>t. ''true, 7:30am'' = ''TRUE, '' @ t)"
proof -
  have p: "parse_decision ''true, 7:30am'' = Inr \<lparr>change_alarm = False, new_wake_up_time = None\<rparr>"
    by (simp add: parse_decision_def)
  show ?thesis using p parse_decision_change_iff [OF p] by simp
qed

text \<open>
  C27: re-parsing the canonical form of a parsed decision gives the same decision
  (the idempotence the specification asks for).  It holds because no piece of a split
  contains the separator, so the time the parser returns never contains \<^verbatim>\<open>", "\<close>.
\<close>

theorem parse_render_idem:
  assumes "parse_decision s = Inr d"
  shows "parse_decision (render_decision d) = Inr d"
proof (cases "change_alarm d")
  case True
  from assms True obtain q qs where sp: "split_go comma_sep [] s = ''TRUE'' # q # qs"
    and d: "d = \<lparr>change_alarm = True, new_wake_up_time = Some q\<rparr>"
    by (auto simp: parse_decision_pieces split: list.splits if_splits)
  have "\<not> contains comma_sep q"
    using split_go_sep_free [of comma_sep q s] sp by simp
  then show ?thesis
    using d parse_decision_TRUE_prefix [of q] split_comma_no_sep [of q]
    by (simp add: render_decision_def)
next
  case False
  with assms have "d = \<lparr>change_alarm = False, new_wake_up_time = None\<rparr>"
    by (auto simp: parse_decision_pieces split: list.splits if_splits)
  then show ?thesis by (simp add: render_decision_def parse_decision_def)
qed

theorem parse_render_idem_witness:
  "parse_decision ''TRUE, 7:30am, tomorrow'' = Inr \<lparr>change_alarm = True, new_wake_up_time = Some ''7:30am''\<rparr> \<and>
   parse_decision (render_decision \<lparr>change_alarm = True, new_wake_up_time = Some ''7:30am''\<rparr>) =
     Inr \<lparr>change_alarm = True, new_wake_up_time = Some ''7:30am''\<rparr>"
proof -
  have p: "parse_decision ''TRUE, 7:30am, tomorrow'' =
      Inr \<lparr>change_alarm = True, new_wake_up_time = Some ''7:30am''\<rparr>"
    by (simp add: parse_decision_def)
  show ?thesis using p parse_render_idem [OF p] by simp
qed

text \<open>
  C28: the canonical form of a decision parses back to the same decision exactly when
  the decision is well formed and its time does not contain \<^verbatim>\<open>", "\<close>.
\<close>

theorem parse_render_iff:
  "parse_decision (render_decision d) = Inr d \<longleftrightarrow>
   decision_wf d \<and> (case new_wake_up_time d of None \<Rightarrow> True | Some t \<Rightarrow> \<not> contains comma_sep t)"
proof (cases d)
  case (fields c tm)
  show ?thesis
  proof (cases c)
    case False
    then show ?thesis using fields
      by (cases tm) (simp_all add: render_decision_def decision_wf_def parse_decision_def)
  next
    case True
    show ?thesis
    proof (cases tm)
      case None
      then show ?thesis using fields True
        by (simp add: render_decision_def decision_wf_def parse_decision_def)
    next
      case (Some t)
      obtain p ps where sp: "split_go comma_sep [] t = p # ps"
        by (cases "split_go comma_sep [] t") simp_all
      have "p = t \<longleftrightarrow> \<not> contains comma_sep t"
      proof
        assume "p = t"
        show "\<not> contains comma_sep t"
        proof
          assume "contains comma_sep t"
          then obtain p' q qs where "split_go comma_sep [] t = p' # q # qs"
            using split_go_contains [of comma_sep t "[]"] by auto
          then have "t = p @ comma_sep @ py_join comma_sep (q # qs)"
            using split_go_two [of comma_sep t p' q qs] sp by simp
          then show False using \<open>p = t\<close> by simp
        qed
      next
        assume "\<not> contains comma_sep t"
        then show "p = t" using split_comma_no_sep [of t] sp by simp
      qed
      moreover have "parse_decision (render_decision d) =
          Inr \<lparr>change_alarm = True, new_wake_up_time = Some p\<rparr>"
        using fields True Some sp parse_decision_TRUE_prefix [of t]
        by (simp add: render_decision_def)
      ultimately show ?thesis using fields True Some by (simp add: decision_wf_def)
    qed
  qed
qed

text \<open>
  C29: the answer is split on every \<^verbatim>\<open>", "\<close>, not into at most two parts as the
  specification says: whatever follows a second separator is dropped from the time.
\<close>

theorem parse_decision_truncates:
  "\<not> contains comma_sep (t @ '','') \<Longrightarrow>
   parse_decision (''TRUE, '' @ t @ '', '' @ u) =
     Inr \<lparr>change_alarm = True, new_wake_up_time = Some t\<rparr>"
proof -
  assume nc: "\<not> contains comma_sep (t @ '','')"
  have "split_go comma_sep [] (t @ comma_sep @ u) = t # split_go comma_sep [] u"
    using split_go_append [of comma_sep t "[]" u] nc by simp
  then show ?thesis
    using parse_decision_TRUE_prefix [of "t @ comma_sep @ u"] by simp
qed

theorem parse_decision_truncates_witness:
  "\<not> contains comma_sep (''7:30am'' @ '','') \<and>
   parse_decision ''TRUE, 7:30am, on weekdays only'' =
     Inr \<lparr>change_alarm = True, new_wake_up_time = Some ''7:30am''\<rparr>"
  using parse_decision_truncates [of "''7:30am''" "''on weekdays only''"] by simp

section \<open>The action trigger\<close>

text \<open>
  C17: the trigger starts \<^verbatim>\<open>./setAlarm.sh <time>\<close> once when a well-formed decision
  says to change the alarm, and starts no process otherwise, whatever the script
  answers.
\<close>

theorem trigger_alarm_execs:
  assumes "decision_wf d" and "trigger_alarm e d w = (r, w')"
  shows "execs (events w') =
     execs (events w) @ (case new_wake_up_time d of None \<Rightarrow> [] | Some t \<Rightarrow> [alarm_argv t])"
proof (cases "change_alarm d")
  case True
  with assms(1) obtain t where t: "new_wake_up_time d = Some t"
    by (auto simp: decision_wf_def)
  show ?thesis
  proof (cases "alarm e (alarm_argv t)")
    case (Inl err)
    then show ?thesis using assms(2) True t by (auto simp: trigger_alarm_def act_bind_def)
  next
    case (Inr code)
    then show ?thesis using assms(2) True t by (auto simp: trigger_alarm_def act_bind_def)
  qed
next
  case False
  with assms(1) have "new_wake_up_time d = None" by (simp add: decision_wf_def)
  then show ?thesis using assms(2) False by (auto simp: trigger_alarm_def)
qed

theorem trigger_alarm_execs_witness:
  "decision_wf \<lparr>change_alarm = True, new_wake_up_time = Some ''7:00am''\<rparr> \<and>
   execs (events (snd (trigger_alarm sample_ext
     \<lparr>change_alarm = True, new_wake_up_time = Some ''7:00am''\<rparr> world0))) = [alarm_argv ''7:00am'']"
proof -
  let ?d = "\<lparr>change_alarm = True, new_wake_up_time = Some ''7:00am''\<rparr>"
  have wf: "decision_wf ?d" by (simp add: decision_wf_def)
  obtain r w' where eq: "trigger_alarm sample_ext ?d world0 = (r, w')" by fastforce
  show ?thesis using trigger_alarm_execs [OF wf eq] wf eq by (simp add: world0_def)
qed

text \<open>
  C30: the trigger reports success whatever exit status the alarm script returns: a
  script that fails with a non-zero status still yields
  \<^verbatim>\<open>Alarm has been set to <time>.\<close>, where the specification asks that a failing
  action be reported as a failure.
\<close>

theorem trigger_alarm_ignores_status:
  assumes "alarm e (alarm_argv t) = Inr code"
  shows "trigger_alarm e \<lparr>change_alarm = True, new_wake_up_time = Some t\<rparr> w =
    (Inr (), w\<lparr>events := events w @
       [Exec (alarm_argv t), Success (''Alarm has been set to '' @ t @ ''.'')]\<rparr>)"
  using assms by (simp add: trigger_alarm_def act_bind_def)

theorem trigger_alarm_ignores_status_witness:
  "alarm sample_ext (alarm_argv ''7:00am'') = Inr 1 \<and>
   trigger_alarm sample_ext \<lparr>change_alarm = True, new_wake_up_time = Some ''7:00am''\<rparr> world0 =
    (Inr (), world0\<lparr>events := events world0 @
       [Exec (alarm_argv ''7:00am''), Success (''Alarm has been set to '' @ ''7:00am'' @ ''.'')]\<rparr>)"
proof -
  have a: "alarm sample_ext (alarm_argv ''7:00am'') = Inr 1" by (simp add: sample_ext_def)
  show ?thesis using a trigger_alarm_ignores_status [OF a, of world0] by simp
qed

end
