(* ===== verification/Url.thy ===== *)
theory Url
  imports PyStr
begin

text \<open>
  Percent-encoding of the addresses in \<^verbatim>\<open>get_eta\<close> (\<^verbatim>\<open>requests.utils.quote\<close>, which
  is \<^verbatim>\<open>urllib.parse.quote\<close> with \<^verbatim>\<open>safe='/'\<close>): the string is encoded in UTF-8
  and every byte outside the unreserved set (ASCII letters, digits, \<^verbatim>\<open>_.-~\<close>) and
  \<^verbatim>\<open>/\<close> becomes \<^verbatim>\<open>%XX\<close> with upper-case hexadecimal digits.  A \<open>char\<close> is a code
  point below 256, so its UTF-8 form has one byte below 128 and two bytes above.
  The decoder \<open>unquote\<close> is the receiving side (what the Directions service reads from
  the query string), \<^verbatim>\<open>urllib.parse.unquote\<close> of Python: it is the specification the
  encoder is checked against.
\<close>

section \<open>UTF-8 for code points below 256\<close>

definition utf8_char :: "char \<Rightarrow> nat list" where
  "utf8_char c =
     (let n = of_char c :: nat in if n < 128 then [n] else [192 + n div 64, 128 + n mod 64])"

definition utf8_encode :: "string \<Rightarrow> nat list" where
  "utf8_encode s = concat (map utf8_char s)"

fun utf8_decode :: "nat list \<Rightarrow> string option" where
  "utf8_decode [] = Some []"
| "utf8_decode (b # bs) =
     (if b < 128 then map_option (Cons (char_of b)) (utf8_decode bs)
      else if b = 194 \<or> b = 195
      then (case bs of
              [] \<Rightarrow> None
            | c # cs \<Rightarrow>
                (if 128 \<le> c \<and> c < 192
                 then map_option (Cons (char_of ((b mod 32) * 64 + c mod 64))) (utf8_decode cs)
                 else None))
      else None)"

section \<open>quote\<close>

definition unreserved :: "nat \<Rightarrow> bool" where
  "unreserved b =
     ((65 \<le> b \<and> b \<le> 90) \<or> (97 \<le> b \<and> b \<le> 122) \<or> (48 \<le> b \<and> b \<le> 57)
      \<or> b = 95 \<or> b = 46 \<or> b = 45 \<or> b = 126)"

definition hex_digit :: "nat \<Rightarrow> char" where
  "hex_digit n = (if n < 10 then char_of (48 + n) else char_of (55 + n))"

definition quote_byte :: "nat \<Rightarrow> string" where
  "quote_byte b =
     (if unreserved b \<or> b = 47 then [char_of b]
      else [CHR ''%'', hex_digit (b div 16), hex_digit (b mod 16)])"

definition py_quote :: "string \<Rightarrow> string" where
  "py_quote s = concat (map quote_byte (utf8_encode s))"

section \<open>unquote\<close>

definition hex_val :: "char \<Rightarrow> nat option" where
  "hex_val c =
     (let n = of_char c :: nat in
      if 48 \<le> n \<and> n \<le> 57 then Some (n - 48)
      else if 65 \<le> n \<and> n \<le> 70 then Some (n - 55)
      else if 97 \<le> n \<and> n \<le> 102 then Some (n - 87)
      else None)"

text \<open>An escape that is not followed by two hexadecimal digits is kept literally, as
  Python's \<^verbatim>\<open>unquote\<close> does.\<close>

fun unquote_bytes :: "string \<Rightarrow> nat list" where
  "unquote_bytes [] = []"
| "unquote_bytes (c # rest) =
     (if c = CHR ''%''
      then (case rest of
              a # b # rest' \<Rightarrow>
                (case (hex_val a, hex_val b) of
                   (Some x, Some y) \<Rightarrow> (16 * x + y) # unquote_bytes rest'
                 | _ \<Rightarrow> 37 # unquote_bytes rest)
            | _ \<Rightarrow> 37 # unquote_bytes rest)
      else of_char c # unquote_bytes rest)"

definition unquote :: "string \<Rightarrow> string option" where
  "unquote s = utf8_decode (unquote_bytes s)"

lemma mod64_add128: "(128 + (m::nat)) mod 64 = m mod 64"
proof -
  have "128 + m = m + 2 * 64" by simp
  then show ?thesis by (simp only: mod_mult_self1)
qed

section \<open>Laws of the encoding\<close>

lemma utf8_decode_char: "utf8_decode (utf8_char c @ bs) = map_option (Cons c) (utf8_decode bs)"
proof -
  let ?n = "of_char c :: nat"
  have lt: "?n < 256" by (rule nat_of_char_less_256)
  show ?thesis
  proof (cases "?n < 128")
    case True
    then show ?thesis by (simp add: utf8_char_def)
  next
    case False
    then have d: "?n div 64 = 2 \<or> ?n div 64 = 3" using lt by linarith
    have m: "128 + ?n mod 64 < 192" by simp
    have q: "(192 + ?n div 64) mod 32 = ?n div 64" using d by auto
    have e: "(?n div 64) * 64 + (128 + ?n mod 64) mod 64 = ?n"
      by (simp only: mod64_add128 mod_mod_trivial div_mult_mod_eq)
    have "char_of ((192 + ?n div 64) mod 32 * 64 + (128 + ?n mod 64) mod 64) = c"
      by (simp only: q e char_of_char)
    then show ?thesis using False d m by (auto simp: utf8_char_def)
  qed
qed

lemma utf8_roundtrip: "utf8_decode (utf8_encode s) = Some s"
  by (induction s) (simp_all add: utf8_encode_def utf8_decode_char)

lemma hex_val_hex_digit: "n < 16 \<Longrightarrow> hex_val (hex_digit n) = Some n"
  by (auto simp: hex_val_def hex_digit_def of_char_of Let_def)

lemma unquote_quote_byte: "b < 256 \<Longrightarrow> unquote_bytes (quote_byte b @ rest) = b # unquote_bytes rest"
proof (cases "unreserved b \<or> b = 47")
  case True
  assume "b < 256"
  moreover have "b \<noteq> 37" using True by (auto simp: unreserved_def)
  ultimately have ob: "of_char (char_of b :: char) = b" by simp
  have "(of_char (char_of b :: char) :: nat) \<noteq> of_char (CHR ''%'')"
    using ob \<open>b \<noteq> 37\<close> by simp
  then have "char_of b \<noteq> CHR ''%''" by metis
  note this ob
  then show ?thesis using True by (simp add: quote_byte_def)
next
  case False
  assume "b < 256"
  then have "b div 16 < 16" by simp
  then show ?thesis using False by (simp add: quote_byte_def hex_val_hex_digit)
qed

lemma utf8_char_bytes: "\<forall>b \<in> set (utf8_char c). b < 256"
proof -
  have "(of_char c :: nat) < 256" by (rule nat_of_char_less_256)
  then have "(of_char c :: nat) div 64 < 4" by (simp add: less_mult_imp_div_less)
  then show ?thesis by (auto simp: utf8_char_def Let_def)
qed

lemma unquote_bytes_quote:
  "\<forall>b \<in> set bs. b < 256 \<Longrightarrow> unquote_bytes (concat (map quote_byte bs)) = bs"
  by (induction bs) (simp_all add: unquote_quote_byte)

lemma unquote_py_quote: "unquote (py_quote s) = Some s"
proof -
  have "\<forall>b \<in> set (utf8_encode s). b < 256"
    using utf8_char_bytes by (auto simp: utf8_encode_def)
  then show ?thesis
    by (simp add: unquote_def py_quote_def unquote_bytes_quote utf8_roundtrip)
qed

definition url_char :: "char \<Rightarrow> bool" where
  "url_char c = (unreserved (of_char c) \<or> c = CHR ''/'' \<or> c = CHR ''%'')"

lemma hex_digit_unreserved: "n < 16 \<Longrightarrow> unreserved (of_char (hex_digit n))"
  by (auto simp: hex_digit_def unreserved_def)

lemma char_of_slash: "char_of (47::nat) = CHR ''/''"
proof -
  have "(of_char (char_of (47::nat)) :: nat) = of_char (CHR ''/'')" by simp
  then show ?thesis by (simp only: of_char_eq_iff)
qed

lemma quote_byte_chars: "b < 256 \<Longrightarrow> \<forall>c \<in> set (quote_byte b). url_char c"
proof -
  assume b: "b < 256"
  have "b div 16 < 16" using b by simp
  then show ?thesis using b
    by (auto simp: quote_byte_def url_char_def hex_digit_unreserved char_of_slash)
qed

lemma py_quote_chars: "\<forall>c \<in> set (py_quote s). url_char c"
  using quote_byte_chars utf8_char_bytes by (fastforce simp: py_quote_def utf8_encode_def)

lemma contains_single: "contains [c] s \<longleftrightarrow> c \<in> set s"
  by (induction s) auto

lemma py_quote_delim_free:
  "CHR ''&'' \<notin> set (py_quote s) \<and> CHR ''='' \<notin> set (py_quote s) \<and> CHR ''#'' \<notin> set (py_quote s)"
proof -
  have "\<And>d. d \<in> {CHR ''&'', CHR ''='', CHR ''#''} \<Longrightarrow> \<not> url_char d"
    by (auto simp: url_char_def unreserved_def)
  then show ?thesis using py_quote_chars [of s] by blast
qed

text \<open>A string of unreserved characters is its own encoding and decodes to itself.\<close>

lemma unquote_bytes_plain:
  "\<forall>c \<in> set k. unreserved (of_char c) \<Longrightarrow> unquote_bytes k = map of_char k"
proof (induction k)
  case Nil
  then show ?case by simp
next
  case (Cons c cs)
  have "c \<noteq> CHR ''%''" using Cons.prems by (auto simp: unreserved_def)
  then show ?case using Cons by simp
qed

lemma utf8_decode_ascii:
  "\<forall>c \<in> set k. (of_char c :: nat) < 128 \<Longrightarrow> utf8_decode (map of_char k) = Some k"
  by (induction k) simp_all

lemma unquote_plain:
  "\<forall>c \<in> set k. unreserved (of_char c) \<Longrightarrow> unquote k = Some k"
proof -
  assume u: "\<forall>c \<in> set k. unreserved (of_char c)"
  then have "\<forall>c \<in> set k. (of_char c :: nat) < 128" by (auto simp: unreserved_def)
  then show ?thesis using u by (simp add: unquote_def unquote_bytes_plain utf8_decode_ascii)
qed

end
