(* ===== verification/Commute.thy ===== *)
theory Commute
  imports Url World
begin

text \<open>
  The Commute Estimator, \<^verbatim>\<open>get_eta\<close> (\<^verbatim>\<open>app.py\<close>, lines 83--114): both addresses are
  percent-encoded, the Directions URL is built with the key, one GET is sent, and the
  decoded JSON payload is read: a non-200 status or a top-level \<^verbatim>\<open>status\<close> other than
  \<^verbatim>\<open>"OK"\<close> prints a message and returns \<^verbatim>\<open>None\<close>; otherwise the first leg of the
  first route gives \<^verbatim>\<open>duration_in_traffic\<close> or, failing that, \<^verbatim>\<open>duration\<close>, whose
  \<^verbatim>\<open>value\<close> in seconds is floor-divided by 60.  The result type \<open>int option result\<close>
  separates the minutes, the unavailable \<^verbatim>\<open>None\<close> and an exception.
\<close>

text \<open>\<^verbatim>\<open>requests.utils.quote(x)\<close> on a cell value: only a string can be encoded;
  \<^verbatim>\<open>None\<close>, a float NaN or a time object make \<^verbatim>\<open>quote_from_bytes\<close> raise
  \<^verbatim>\<open>TypeError\<close>.\<close>

fun quote_val :: "pyval \<Rightarrow> string result" where
  "quote_val (PStr s) = Inr (py_quote s)"
| "quote_val _ = Inl TypeError"

text \<open>The f-string rendering of the key, a string or \<^verbatim>\<open>None\<close>.\<close>

definition fstr_opt :: "string option \<Rightarrow> string" where
  "fstr_opt k = (case k of None \<Rightarrow> ''None'' | Some s \<Rightarrow> s)"

definition directions_url :: "string \<Rightarrow> string \<Rightarrow> string option \<Rightarrow> string" where
  "directions_url h w k =
     ''https://maps.googleapis.com/maps/api/directions/json?origin='' @ h @
     ''&destination='' @ w @ ''&key='' @ fstr_opt k"

text \<open>\<^verbatim>\<open>directions_data['routes'][0]['legs'][0]\<close>.\<close>

definition first_leg :: "json \<Rightarrow> json result" where
  "first_leg data =
     rbind (json_getkey data ''routes'') (\<lambda>routes.
     rbind (json_getidx routes 0) (\<lambda>route.
     rbind (json_getkey route ''legs'') (\<lambda>legs.
     json_getidx legs 0)))"

text \<open>Lines 103--107.  Python evaluates \<^verbatim>\<open>legs.get\<close>, then the default argument
  \<^verbatim>\<open>legs['duration']\<close>, then the call: the default is read even when
  \<^verbatim>\<open>duration_in_traffic\<close> is present.\<close>

definition eta_of_leg :: "json \<Rightarrow> int result" where
  "eta_of_leg legs =
     rbind (json_get_method legs) (\<lambda>get.
     rbind (json_getkey legs ''duration'') (\<lambda>duration.
     rbind (json_getkey (get ''duration_in_traffic'' duration) ''value'') (\<lambda>eta_seconds.
     py_floordiv eta_seconds 60)))"

text \<open>Lines 95--114: what is done with the response.\<close>

definition directions_reply :: "http_response \<Rightarrow> (world, int option) act" where
  "directions_reply response =
     (if status_code response = 200
      then (case body response of
              None \<Rightarrow> act_raise JSONDecodeError
            | Some directions_data \<Rightarrow>
                act_bind (act_lift (json_getkey directions_data ''status'')) (\<lambda>status.
                  if status = JStr ''OK''
                  then act_lift (rbind (first_leg directions_data) (\<lambda>legs.
                         rbind (eta_of_leg legs) (\<lambda>eta_minutes. Inr (Some eta_minutes))))
                  else act_seq (emit (PrintStatusError status)) (act_return None)))
      else act_seq (emit (PrintText ''Failed to retrieve directions'')) (act_return None))"

definition get_eta :: "ext \<Rightarrow> pyval \<Rightarrow> pyval \<Rightarrow> string option \<Rightarrow> (world, int option) act" where
  "get_eta e home_address work_address api_key =
     act_bind (act_lift (quote_val home_address)) (\<lambda>home_address_encoded.
     act_bind (act_lift (quote_val work_address)) (\<lambda>work_address_encoded.
     act_bind (call (HttpGet (directions_url home_address_encoded work_address_encoded api_key))
                    (http e (directions_url home_address_encoded work_address_encoded api_key)))
       directions_reply))"

text \<open>The receiving side of the request: the query of a URL and its parameters as
  \<^verbatim>\<open>urllib.parse.parse_qsl\<close> reads them (split on \<^verbatim>\<open>&\<close>, name before the first
  \<^verbatim>\<open>=\<close>, value percent-decoded).\<close>

definition url_query :: "string \<Rightarrow> string" where
  "url_query url = drop 1 (dropWhile (\<lambda>c. c \<noteq> CHR ''?'') url)"

definition parse_qs :: "string \<Rightarrow> (string \<times> string option) list" where
  "parse_qs q =
     map (\<lambda>p. case split_go ''='' [] p of
                 [] \<Rightarrow> ([], None)
               | name # vs \<Rightarrow> (name, unquote (py_join ''='' vs)))
       (split_go ''&'' [] q)"

text \<open>What the service reports for a leg, as the specification reads it: the seconds of
  \<^verbatim>\<open>duration_in_traffic\<close> when the leg has it, of \<^verbatim>\<open>duration\<close> otherwise.  A JSON
  integer or boolean is a number, as for Python's \<^verbatim>\<open>//\<close>.  \<open>leg_ok\<close> and
  \<open>reply_ok\<close> are the well-formed answers: a leg with a \<^verbatim>\<open>duration\<close> and a
  reported number of seconds, and a reply that is not 200, or a 200 with a
  \<^verbatim>\<open>status\<close> member that is not \<^verbatim>\<open>"OK"\<close> or whose first leg is well formed.\<close>

fun json_number :: "json \<Rightarrow> int option" where
  "json_number (JInt n) = Some n"
| "json_number (JBool b) = Some (if b then 1 else 0)"
| "json_number _ = None"

definition value_of :: "json \<Rightarrow> int option" where
  "value_of d = (case json_getkey d ''value'' of Inl _ \<Rightarrow> None | Inr v \<Rightarrow> json_number v)"

definition reported_seconds :: "(string \<times> json) list \<Rightarrow> int option" where
  "reported_seconds legs =
     (case obj_lookup legs ''duration_in_traffic'' of
        Some d \<Rightarrow> value_of d
      | None \<Rightarrow> (case obj_lookup legs ''duration'' of Some d \<Rightarrow> value_of d | None \<Rightarrow> None))"

definition leg_ok :: "json \<Rightarrow> bool" where
  "leg_ok leg =
     (case leg of
        JObj legs \<Rightarrow> obj_lookup legs ''duration'' \<noteq> None \<and> reported_seconds legs \<noteq> None
      | _ \<Rightarrow> False)"

definition reply_ok :: "http_response \<Rightarrow> bool" where
  "reply_ok r =
     (status_code r \<noteq> 200 \<or>
      (case body r of
         None \<Rightarrow> False
       | Some d \<Rightarrow>
           (case json_getkey d ''status'' of
              Inl _ \<Rightarrow> False
            | Inr st \<Rightarrow> st \<noteq> JStr ''OK'' \<or> (case first_leg d of Inl _ \<Rightarrow> False | Inr leg \<Rightarrow> leg_ok leg))))"

section \<open>Evaluation of get_eta\<close>

abbreviation eta_url :: "string \<Rightarrow> string \<Rightarrow> string option \<Rightarrow> string" where
  "eta_url h w k \<equiv> directions_url (py_quote h) (py_quote w) k"

lemma get_eta_PStr:
  "get_eta e (PStr h) (PStr w) k s =
     (case http e (eta_url h w k) of
        Inl err \<Rightarrow> (Inl err, s\<lparr>events := events s @ [HttpGet (eta_url h w k)]\<rparr>)
      | Inr resp \<Rightarrow> directions_reply resp (s\<lparr>events := events s @ [HttpGet (eta_url h w k)]\<rparr>))"
  by (simp add: get_eta_def act_bind_def split: sum.split)

lemma directions_reply_ok:
  assumes "status_code resp = 200" and "body resp = Some data"
    and "json_getkey data ''status'' = Inr (JStr ''OK'')"
  shows "directions_reply resp s =
    (rbind (first_leg data) (\<lambda>legs. rbind (eta_of_leg legs) (\<lambda>m. Inr (Some m))), s)"
  using assms by (simp add: directions_reply_def)

lemma eta_of_leg_traffic:
  "obj_lookup legs ''duration'' = Some dur \<Longrightarrow> obj_lookup legs ''duration_in_traffic'' = Some dit \<Longrightarrow>
   eta_of_leg (JObj legs) = rbind (json_getkey dit ''value'') (\<lambda>v. py_floordiv v 60)"
  by (simp add: eta_of_leg_def)

lemma eta_of_leg_no_traffic:
  "obj_lookup legs ''duration'' = Some dur \<Longrightarrow> obj_lookup legs ''duration_in_traffic'' = None \<Longrightarrow>
   eta_of_leg (JObj legs) = rbind (json_getkey dur ''value'') (\<lambda>v. py_floordiv v 60)"
  by (simp add: eta_of_leg_def)

lemma py_floordiv_60: "py_floordiv v 60 = (case json_number v of None \<Rightarrow> Inl TypeError | Some n \<Rightarrow> Inr (n div 60))"
  by (cases v) simp_all

lemma value_of_Some:
  "value_of d = Some n \<longleftrightarrow> (\<exists>a. json_getkey d ''value'' = Inr a \<and> json_number a = Some n)"
  by (auto simp: value_of_def split: sum.splits)

lemma eta_of_leg_Inr_iff:
  "eta_of_leg (JObj legs) = Inr m \<longleftrightarrow>
   obj_lookup legs ''duration'' \<noteq> None \<and> (\<exists>n. reported_seconds legs = Some n \<and> m = n div 60)"
  by (auto simp: eta_of_leg_def reported_seconds_def value_of_Some py_floordiv_60 split: option.splits)

lemma eta_of_leg_Inr_leg_ok: "(\<exists>m. eta_of_leg leg = Inr m) \<longleftrightarrow> leg_ok leg"
  by (cases leg) (auto simp: leg_ok_def eta_of_leg_Inr_iff simp del: json_get_method.simps,
      simp_all add: eta_of_leg_def)

lemma directions_reply_Inr_iff:
  "(\<exists>m w'. directions_reply r w = (Inr m, w')) \<longleftrightarrow> reply_ok r"
  by (auto simp: directions_reply_def reply_ok_def eta_of_leg_Inr_leg_ok [symmetric]
      split: option.splits sum.splits)

text \<open>A sample successful answer of the service: one route, one leg, with the given
  members (\<open>duration\<close>, \<open>duration_in_traffic\<close>).\<close>

definition sample_data :: "(string \<times> json) list \<Rightarrow> json" where
  "sample_data leg =
     JObj [(''status'', JStr ''OK''), (''routes'', JList [JObj [(''legs'', JList [JObj leg])]])]"

definition sample_reply :: "(string \<times> json) list \<Rightarrow> http_response" where
  "sample_reply leg = \<lparr>status_code = 200, body = Some (sample_data leg)\<rparr>"

definition reply_ext :: "http_response \<Rightarrow> ext" where
  "reply_ext r = sample_ext\<lparr>http := (\<lambda>_. Inr r)\<rparr>"

lemma split_amp3:
  assumes "CHR ''&'' \<notin> set a" and "CHR ''&'' \<notin> set b" and "CHR ''&'' \<notin> set c"
  shows "split_go ''&'' [] (a @ ''&'' @ b @ ''&'' @ c) = [a, b, c]"
  using split_go_append [of "''&''" a "[]" "b @ ''&'' @ c"] split_go_append [of "''&''" b "[]" c]
    split_go_no_sep [of "''&''" c "[]"] assms
  by (simp add: contains_single)

lemma split_eq2:
  assumes "CHR ''='' \<notin> set name" and "CHR ''='' \<notin> set v"
  shows "split_go ''='' [] (name @ ''='' @ v) = [name, v]"
  using split_go_append [of "''=''" name "[]" v] split_go_no_sep [of "''=''" v "[]"] assms
  by (simp add: contains_single)

section \<open>Properties of get_eta\<close>

text \<open>
  C24: the addresses cannot corrupt the request: whatever characters they hold, the
  query string of the Directions URL parses back into exactly the three parameters
  \<^verbatim>\<open>origin\<close>, \<^verbatim>\<open>destination\<close> and \<^verbatim>\<open>key\<close>, with the two addresses as given,
  provided the key is made of unreserved characters (it is not encoded).
\<close>

theorem directions_url_params:
  assumes "\<forall>c \<in> set k. unreserved (of_char c)"
  shows "parse_qs (url_query (eta_url h w (Some k))) =
    [(''origin'', Some h), (''destination'', Some w), (''key'', Some k)]"
proof -
  have dh: "CHR ''&'' \<notin> set (py_quote h)" "CHR ''='' \<notin> set (py_quote h)"
    and dw: "CHR ''&'' \<notin> set (py_quote w)" "CHR ''='' \<notin> set (py_quote w)"
    using py_quote_delim_free by blast+
  have dk: "CHR ''&'' \<notin> set k" "CHR ''='' \<notin> set k"
    using assms by (auto simp: unreserved_def)
  have q: "url_query (eta_url h w (Some k)) =
      (''origin='' @ py_quote h) @ ''&'' @ (''destination='' @ py_quote w) @ ''&'' @ (''key='' @ k)"
    by (simp add: url_query_def directions_url_def fstr_opt_def)
  have amp: "split_go ''&'' [] (url_query (eta_url h w (Some k))) =
      [''origin='' @ py_quote h, ''destination='' @ py_quote w, ''key='' @ k]"
    by (simp only: q) (rule split_amp3; simp add: dh dw dk)
  have e1: "split_go ''='' [] (''origin='' @ py_quote h) = [''origin'', py_quote h]"
    using split_eq2 [of "''origin''" "py_quote h"] dh by simp
  have e2: "split_go ''='' [] (''destination='' @ py_quote w) = [''destination'', py_quote w]"
    using split_eq2 [of "''destination''" "py_quote w"] dw by simp
  have e3: "split_go ''='' [] (''key='' @ k) = [''key'', k]"
    using split_eq2 [of "''key''" k] dk by simp
  show ?thesis
    by (simp only: parse_qs_def amp list.map e1 e2 e3 list.case py_join.simps
        unquote_py_quote unquote_plain [OF assms])
qed

theorem directions_url_params_witness:
  "parse_qs (url_query (eta_url ''1 Main St & Co'' ''X=Y #2'' (Some ''AIzaKEY''))) =
    [(''origin'', Some ''1 Main St & Co''), (''destination'', Some ''X=Y #2''), (''key'', Some ''AIzaKEY'')]"
proof -
  have k: "\<forall>c \<in> set ''AIzaKEY''. unreserved (of_char c)" by (simp add: unreserved_def)
  show ?thesis using k directions_url_params [OF k, of "''1 Main St & Co''" "''X=Y #2''"] by simp
qed

section \<open>Properties of get_eta, continued\<close>

text \<open>
  C5: on a 200 answer with status \<^verbatim>\<open>"OK"\<close> whose first leg has
  \<^verbatim>\<open>duration_in_traffic\<close>, the estimate is that value in seconds floor-divided by 60;
  the only effect is the one GET request.
\<close>

theorem get_eta_traffic:
  assumes "http e (eta_url h w k) = Inr resp" and "status_code resp = 200"
    and "body resp = Some data" and "json_getkey data ''status'' = Inr (JStr ''OK'')"
    and "first_leg data = Inr (JObj legs)"
    and "obj_lookup legs ''duration'' = Some dur"
    and "obj_lookup legs ''duration_in_traffic'' = Some (JObj traffic)"
    and "obj_lookup traffic ''value'' = Some (JInt secs)"
  shows "get_eta e (PStr h) (PStr w) k s =
    (Inr (Some (secs div 60)), s\<lparr>events := events s @ [HttpGet (eta_url h w k)]\<rparr>)"
  using assms by (simp add: get_eta_PStr directions_reply_ok eta_of_leg_traffic)

theorem get_eta_traffic_witness:
  "get_eta (reply_ext (sample_reply [(''duration'', JObj [(''value'', JInt 1500)]),
       (''duration_in_traffic'', JObj [(''value'', JInt 1800)])]))
     (PStr ''123 Main St'') (PStr ''456 Oak Ave'') None world0 =
   (Inr (Some 30), world0\<lparr>events := [HttpGet (eta_url ''123 Main St'' ''456 Oak Ave'' None)]\<rparr>)"
proof -
  let ?legs = "[(''duration'', JObj [(''value'', JInt 1500)]),
       (''duration_in_traffic'', JObj [(''value'', JInt 1800)])]"
  have "get_eta (reply_ext (sample_reply ?legs)) (PStr ''123 Main St'') (PStr ''456 Oak Ave'') None world0 =
    (Inr (Some (1800 div 60)),
     world0\<lparr>events := events world0 @ [HttpGet (eta_url ''123 Main St'' ''456 Oak Ave'' None)]\<rparr>)"
    by (rule get_eta_traffic [where resp = "sample_reply ?legs" and legs = ?legs and data = "sample_data ?legs"
          and dur = "JObj [(''value'', JInt 1500)]" and traffic = "[(''value'', JInt 1800)]"])
       (simp_all add: reply_ext_def sample_reply_def sample_data_def first_leg_def)
  then show ?thesis by (simp add: world0_def)
qed

text \<open>
  C19: without \<^verbatim>\<open>duration_in_traffic\<close> the estimate falls back to the base
  \<^verbatim>\<open>duration\<close>.
\<close>

theorem get_eta_fallback:
  assumes "http e (eta_url h w k) = Inr resp" and "status_code resp = 200"
    and "body resp = Some data" and "json_getkey data ''status'' = Inr (JStr ''OK'')"
    and "first_leg data = Inr (JObj legs)"
    and "obj_lookup legs ''duration'' = Some (JObj dur)"
    and "obj_lookup legs ''duration_in_traffic'' = None"
    and "obj_lookup dur ''value'' = Some (JInt secs)"
  shows "get_eta e (PStr h) (PStr w) k s =
    (Inr (Some (secs div 60)), s\<lparr>events := events s @ [HttpGet (eta_url h w k)]\<rparr>)"
  using assms by (simp add: get_eta_PStr directions_reply_ok eta_of_leg_no_traffic)

theorem get_eta_fallback_witness:
  "get_eta (reply_ext (sample_reply [(''duration'', JObj [(''value'', JInt 1799)])]))
     (PStr ''123 Main St'') (PStr ''456 Oak Ave'') None world0 =
   (Inr (Some 29), world0\<lparr>events := [HttpGet (eta_url ''123 Main St'' ''456 Oak Ave'' None)]\<rparr>)"
proof -
  let ?legs = "[(''duration'', JObj [(''value'', JInt 1799)])]"
  have "get_eta (reply_ext (sample_reply ?legs)) (PStr ''123 Main St'') (PStr ''456 Oak Ave'') None world0 =
    (Inr (Some (1799 div 60)),
     world0\<lparr>events := events world0 @ [HttpGet (eta_url ''123 Main St'' ''456 Oak Ave'' None)]\<rparr>)"
    by (rule get_eta_fallback [where resp = "sample_reply ?legs" and legs = ?legs and data = "sample_data ?legs"
          and dur = "[(''value'', JInt 1799)]"])
       (simp_all add: reply_ext_def sample_reply_def sample_data_def first_leg_def)
  then show ?thesis by (simp add: world0_def)
qed

text \<open>
  C20: a non-200 answer, or a 200 answer whose \<^verbatim>\<open>status\<close> is not \<^verbatim>\<open>"OK"\<close>, gives the
  unavailable estimate \<^verbatim>\<open>None\<close> without an exception, after the GET and one printed
  message.
\<close>

theorem get_eta_unavailable:
  assumes "http e (eta_url h w k) = Inr resp"
    and "status_code resp \<noteq> 200 \<or>
         (body resp = Some data \<and> json_getkey data ''status'' = Inr st \<and> st \<noteq> JStr ''OK'')"
  shows "fst (get_eta e (PStr h) (PStr w) k s) = Inr None"
  using assms by (auto simp: get_eta_PStr directions_reply_def act_seq_def act_bind_def)

theorem get_eta_unavailable_witness:
  "http (reply_ext \<lparr>status_code = 403, body = None\<rparr>) (eta_url ''a'' ''b'' None) =
     Inr \<lparr>status_code = 403, body = None\<rparr> \<and>
   fst (get_eta (reply_ext \<lparr>status_code = 403, body = None\<rparr>) (PStr ''a'') (PStr ''b'') None world0) =
     Inr None"
proof -
  have h: "http (reply_ext \<lparr>status_code = 403, body = None\<rparr>) (eta_url ''a'' ''b'' None) =
     Inr \<lparr>status_code = 403, body = None\<rparr>" by (simp add: reply_ext_def)
  show ?thesis using h get_eta_unavailable [OF h, of JNull JNull world0] by simp
qed

text \<open>
  C21: the default argument \<^verbatim>\<open>legs['duration']\<close> is evaluated before
  \<^verbatim>\<open>get\<close> is called, so a leg that has \<^verbatim>\<open>duration_in_traffic\<close> but no
  \<^verbatim>\<open>duration\<close> raises \<^verbatim>\<open>KeyError\<close> instead of using the traffic duration.
\<close>

theorem get_eta_eager_default:
  assumes "http e (eta_url h w k) = Inr resp" and "status_code resp = 200"
    and "body resp = Some data" and "json_getkey data ''status'' = Inr (JStr ''OK'')"
    and "first_leg data = Inr (JObj legs)"
    and "obj_lookup legs ''duration'' = None"
  shows "fst (get_eta e (PStr h) (PStr w) k s) = Inl (KeyError ''duration'')"
  using assms by (simp add: get_eta_PStr directions_reply_ok eta_of_leg_def)

theorem get_eta_eager_default_witness:
  "fst (get_eta (reply_ext (sample_reply [(''duration_in_traffic'', JObj [(''value'', JInt 1800)])]))
     (PStr ''a'') (PStr ''b'') None world0) = Inl (KeyError ''duration'')"
proof -
  let ?legs = "[(''duration_in_traffic'', JObj [(''value'', JInt 1800)])]"
  show ?thesis
    by (rule get_eta_eager_default [where resp = "sample_reply ?legs" and legs = ?legs
          and data = "sample_data ?legs"])
       (simp_all add: reply_ext_def sample_reply_def sample_data_def first_leg_def)
qed

text \<open>
  C22: a transport failure of the GET is not caught: the exception of
  \<^verbatim>\<open>requests.get\<close> leaves \<^verbatim>\<open>get_eta\<close>, where the specification asks for the
  unavailable estimate.
\<close>

theorem get_eta_transport_raises:
  assumes "http e (eta_url h w k) = Inl err"
  shows "get_eta e (PStr h) (PStr w) k s =
    (Inl err, s\<lparr>events := events s @ [HttpGet (eta_url h w k)]\<rparr>)"
  using assms by (simp add: get_eta_PStr)

theorem get_eta_transport_raises_witness:
  "http sample_ext (eta_url ''a'' ''b'' None) = Inl HTTPError \<and>
   get_eta sample_ext (PStr ''a'') (PStr ''b'') None world0 =
    (Inl HTTPError, world0\<lparr>events := events world0 @ [HttpGet (eta_url ''a'' ''b'' None)]\<rparr>)"
proof -
  have h: "http sample_ext (eta_url ''a'' ''b'' None) = Inl HTTPError" by (simp add: sample_ext_def)
  show ?thesis using h get_eta_transport_raises [OF h, of world0] by simp
qed

text \<open>
  C23: if either address is not a string (a NaN read back from an empty CSV cell, or
  \<^verbatim>\<open>None\<close>), \<^verbatim>\<open>quote\<close> raises \<^verbatim>\<open>TypeError\<close> before any request is sent and
  nothing is shown.
\<close>

theorem get_eta_non_string_address:
  assumes "(\<forall>a. home \<noteq> PStr a) \<or> (\<forall>a. work \<noteq> PStr a)"
  shows "get_eta e home work k s = (Inl TypeError, s)"
proof (cases home)
  case (PStr h)
  with assms have "\<forall>a. work \<noteq> PStr a" by simp
  then show ?thesis using PStr by (cases work) (simp_all add: get_eta_def act_bind_def)
qed (simp_all add: get_eta_def act_bind_def)

theorem get_eta_non_string_address_witness:
  "(\<forall>a. PNaN \<noteq> PStr a) \<and> (\<forall>a. PNone \<noteq> PStr a) \<and>
   get_eta sample_ext (PStr ''a'') PNaN None world0 = (Inl TypeError, world0) \<and>
   get_eta sample_ext PNone (PStr ''b'') None world0 = (Inl TypeError, world0)"
  using get_eta_non_string_address [of "PStr ''a''" PNaN sample_ext None world0]
    get_eta_non_string_address [of PNone "PStr ''b''" sample_ext None world0]
  by simp

section \<open>Bounds and exact error behaviour\<close>

text \<open>
  C18: the estimate is the reported travel time in whole minutes, rounded down: when
  the leg is read without an exception, the minutes \<open>m\<close> and the seconds \<open>v\<close> the
  service reports for the leg (in traffic when available) satisfy
  \<open>60 m \<le> v < 60 m + 60\<close>, also for a negative number of seconds (Python's \<^verbatim>\<open>//\<close>
  rounds towards minus infinity).
\<close>

theorem eta_of_leg_bounds:
  assumes "eta_of_leg (JObj legs) = Inr m"
  shows "\<exists>v. reported_seconds legs = Some v \<and> 60 * m \<le> v \<and> v < 60 * m + 60"
proof -
  obtain v where v: "reported_seconds legs = Some v" and m: "m = v div 60"
    using assms eta_of_leg_Inr_iff by blast
  have "v = 60 * m + v mod 60" using m by simp
  moreover have "0 \<le> v mod 60" "v mod 60 < 60" by simp_all
  ultimately have "60 * m \<le> v \<and> v < 60 * m + 60" by linarith
  then show ?thesis using v by blast
qed

theorem eta_of_leg_bounds_witness:
  "eta_of_leg (JObj [(''duration'', JObj [(''value'', JInt 1500)]),
                     (''duration_in_traffic'', JObj [(''value'', JInt 1859)])]) = Inr 30 \<and>
   (\<exists>v. reported_seconds [(''duration'', JObj [(''value'', JInt 1500)]),
                     (''duration_in_traffic'', JObj [(''value'', JInt 1859)])] = Some v \<and>
        60 * 30 \<le> v \<and> v < 60 * 30 + 60)"
proof -
  have e: "eta_of_leg (JObj [(''duration'', JObj [(''value'', JInt 1500)]),
                     (''duration_in_traffic'', JObj [(''value'', JInt 1859)])]) = Inr 30"
    by (simp add: eta_of_leg_def)
  show ?thesis using e eta_of_leg_bounds [OF e] by simp
qed

text \<open>
  C12: for string addresses the Commute Estimator raises exactly when the request
  raises or the answer is not well formed (\<open>reply_ok\<close>: a 200 answer without a JSON
  body, without a \<^verbatim>\<open>status\<close>, or with status \<^verbatim>\<open>"OK"\<close> and a first leg that has
  no \<^verbatim>\<open>duration\<close> or no number of seconds); every other answer gives an estimate
  or the unavailable \<^verbatim>\<open>None\<close>.
\<close>

theorem get_eta_raises_iff:
  "(\<exists>err w'. get_eta e (PStr h) (PStr a) k w = (Inl err, w')) \<longleftrightarrow>
   (case http e (eta_url h a k) of Inl _ \<Rightarrow> True | Inr r \<Rightarrow> \<not> reply_ok r)"
proof (cases "http e (eta_url h a k)")
  case (Inl err)
  then show ?thesis by (simp add: get_eta_PStr)
next
  case (Inr r)
  let ?w = "w\<lparr>events := events w @ [HttpGet (eta_url h a k)]\<rparr>"
  have "(\<exists>err w'. directions_reply r ?w = (Inl err, w')) \<longleftrightarrow> \<not> (\<exists>m w'. directions_reply r ?w = (Inr m, w'))"
    by (cases "directions_reply r ?w", rename_tac res w', case_tac res) auto
  then show ?thesis using Inr directions_reply_Inr_iff [of r ?w] by (simp add: get_eta_PStr)
qed

theorem get_eta_raises_iff_witness:
  "\<not> (\<exists>err w'. get_eta (reply_ext \<lparr>status_code = 403, body = None\<rparr>) (PStr ''a'') (PStr ''b'') None world0 =
      (Inl err, w'))"
  using get_eta_raises_iff [of "reply_ext \<lparr>status_code = 403, body = None\<rparr>" "''a''" "''b''" None world0]
  by (simp add: reply_ext_def reply_ok_def)

end
