(* ===== verification/Profile.thy ===== *)
theory Profile
  imports World
begin

text \<open>
  The user form and the Profile Store (\<^verbatim>\<open>app.py\<close>, lines 30--80 and 124--126).
  A one-row DataFrame, and the dictionary \<^verbatim>\<open>to_dict\<close> makes of a row, is an association
  list from column names to cell values in column order (\<open>row\<close>).  The store is a CSV
  file: \<^verbatim>\<open>append_to_csv\<close> writes the header only when the file does not exist yet and
  then the row, \<^verbatim>\<open>get_user_info\<close> reads the file back with \<^verbatim>\<open>pandas.read_csv\<close> and
  returns its last row.  On the way through the file a cell is written as text
  (\<^verbatim>\<open>None\<close> and NaN as the empty string) and read back as a string, except that the
  texts pandas takes for missing values (the empty string, \<^verbatim>\<open>NA\<close>, \<^verbatim>\<open>None\<close>,
  \<^verbatim>\<open>null\<close>, \<^verbatim>\<open>nan\<close> and the rest of its default list) come back as NaN.  The CSV
  quoting of pandas is taken as exact (a cell's text is what is read back); its numeric
  type inference, which turns a column whose every cell is a number into numbers, is
  not modelled.
\<close>

type_synonym row = "(string \<times> pyval) list"

section \<open>The form\<close>

text \<open>The values of the form's widgets when the script runs, and whether the submit
  button was pressed in this run.\<close>

record form_values =
  user_name :: string
  user_gender :: "string option"
  user_livingAdd :: string
  user_workAdd :: string
  user_morningRoutine :: "string list"
  user_sleepT :: py_time
  user_wakeT :: py_time
  user_timeAtWork :: py_time
  submit_button :: bool

definition morningActivities :: "string list" where
  "morningActivities = [''Take a shower'', ''Brush teeth'', ''Breakfast'', ''Change clothes'',
     ''Read a book'', ''Take kids to school'', ''Walk the dog'', ''Exercise'', ''Other'']"

definition profile_columns :: "string list" where
  "profile_columns = [''name'', ''gender'', ''livingAdd'', ''workAdd'', ''morningRoutine'',
     ''sleepT'', ''wakeT'', ''timAtWork'']"

text \<open>Lines 47--56: the one-row frame built from the widget values.\<close>

definition form_row :: "form_values \<Rightarrow> row" where
  "form_row f =
     [(''name'', PStr (py_rstrip (user_name f))),
      (''gender'', (case user_gender f of None \<Rightarrow> PNone | Some g \<Rightarrow> PStr g)),
      (''livingAdd'', PStr (py_rstrip (user_livingAdd f))),
      (''workAdd'', PStr (py_rstrip (user_workAdd f))),
      (''morningRoutine'', PStr (py_join '', '' (user_morningRoutine f))),
      (''sleepT'', PTime (user_sleepT f)),
      (''wakeT'', PTime (user_wakeT f)),
      (''timAtWork'', PTime (user_timeAtWork f))]"

definition user_input :: "form_values \<Rightarrow> (world, row option) act" where
  "user_input f =
     (if submit_button f
      then act_seq (emit (Write ''Thank you for submitting your information!''))
             (act_return (Some (form_row f)))
      else act_return None)"

text \<open>A sample submission: every field filled in, the gender left unanswered.\<close>

definition sample_form :: form_values where
  "sample_form =
     \<lparr>user_name = ''Ann  '', user_gender = None, user_livingAdd = ''123 Main St'',
      user_workAdd = ''456 Oak Ave'', user_morningRoutine = [''Breakfast'', ''Walk the dog''],
      user_sleepT = \<lparr>hour = 23, minute = 0, second = 0\<rparr>,
      user_wakeT = \<lparr>hour = 7, minute = 0, second = 0\<rparr>,
      user_timeAtWork = \<lparr>hour = 9, minute = 0, second = 0\<rparr>, submit_button = True\<rparr>"

section \<open>Converting the time columns to strings\<close>

text \<open>\<^verbatim>\<open>str\<close> of a \<^verbatim>\<open>datetime.time\<close> with no microseconds is \<^verbatim>\<open>HH:MM:SS\<close>.\<close>

definition pad2 :: "nat \<Rightarrow> string" where
  "pad2 n = [char_of (48 + n div 10), char_of (48 + n mod 10)]"

definition time_str :: "py_time \<Rightarrow> string" where
  "time_str t = pad2 (hour t) @ '':'' @ pad2 (minute t) @ '':'' @ pad2 (second t)"

text \<open>\<^verbatim>\<open>astype(str)\<close> on one cell: a string stays, a time is printed, \<^verbatim>\<open>None\<close>
  and NaN become the strings \<^verbatim>\<open>"None"\<close> and \<^verbatim>\<open>"nan"\<close>.\<close>

fun astype_str :: "pyval \<Rightarrow> pyval" where
  "astype_str (PStr s) = PStr s"
| "astype_str (PTime t) = PStr (time_str t)"
| "astype_str PNone = PStr ''None''"
| "astype_str PNaN = PStr ''nan''"

text \<open>\<^verbatim>\<open>user_info[c] = user_info[c].astype(str)\<close>: the column keeps its place.\<close>

definition column_astype_str :: "string \<Rightarrow> row \<Rightarrow> row" where
  "column_astype_str c r = map (\<lambda>(k, v). if k = c then (k, astype_str v) else (k, v)) r"

definition times_to_str :: "row \<Rightarrow> row" where
  "times_to_str r =
     column_astype_str ''timAtWork'' (column_astype_str ''wakeT'' (column_astype_str ''sleepT'' r))"

section \<open>The CSV store\<close>

text \<open>A path relative to the working directory, as the operating system resolves it.\<close>

definition resolve :: "string \<Rightarrow> string \<Rightarrow> string" where
  "resolve dir p = (if take 1 p = ''/'' then p else dir @ ''/'' @ p)"

definition filename :: string where
  "filename = ''user_info.csv''"

definition csv_path :: string where
  "csv_path = ''/Database/user_info.csv''"

text \<open>The text \<^verbatim>\<open>to_csv\<close> writes for a cell.\<close>

fun csv_cell :: "pyval \<Rightarrow> string" where
  "csv_cell (PStr s) = s"
| "csv_cell (PTime t) = time_str t"
| "csv_cell PNone = []"
| "csv_cell PNaN = []"

definition append_to_csv :: "ext \<Rightarrow> row \<Rightarrow> string \<Rightarrow> (world, unit) act" where
  "append_to_csv e user_info fname w =
     (let p = resolve (cwd e) fname;
          line = map (csv_cell \<circ> snd) user_info
      in case files w p of
           None \<Rightarrow> (Inr (), w\<lparr>files := (files w)(p \<mapsto> [map fst user_info, line])\<rparr>)
         | Some t \<Rightarrow> (Inr (), w\<lparr>files := (files w)(p \<mapsto> t @ [line])\<rparr>))"

definition na_values :: "string list" where
  "na_values = ['''', ''#N/A'', ''#N/A N/A'', ''#NA'', ''-1.#IND'', ''-1.#QNAN'', ''-NaN'', ''-nan'',
     ''1.#IND'', ''1.#QNAN'', ''<NA>'', ''N/A'', ''NA'', ''NULL'', ''NaN'', ''None'', ''n/a'',
     ''nan'', ''null'']"

definition read_cell :: "string \<Rightarrow> pyval" where
  "read_cell s = (if s \<in> set na_values then PNaN else PStr s)"

text \<open>\<^verbatim>\<open>pd.read_csv(path)\<close> followed by \<^verbatim>\<open>df.iloc[-1].to_dict()\<close>: a missing file
  raises \<^verbatim>\<open>FileNotFoundError\<close>, an empty one \<^verbatim>\<open>EmptyDataError\<close>, a file with a header
  and no row makes \<^verbatim>\<open>iloc[-1]\<close> raise \<^verbatim>\<open>IndexError\<close>; a row longer than the header
  is a \<^verbatim>\<open>ParserError\<close>, a shorter one is padded with NaN.\<close>

definition last_row :: "csv_table option \<Rightarrow> row result" where
  "last_row t =
     (case t of
        None \<Rightarrow> Inl FileNotFoundError
      | Some [] \<Rightarrow> Inl EmptyDataError
      | Some (header # rows) \<Rightarrow>
          (if \<not> list_all (\<lambda>r. length r \<le> length header) rows then Inl ParserError
           else rbind (py_index rows (-1)) (\<lambda>r.
             Inr (zip header (map read_cell r @ replicate (length header - length r) PNaN)))))"

definition get_user_info :: "(world, row) act" where
  "get_user_info w = (last_row (files w csv_path), w)"

section \<open>The store invariant\<close>

text \<open>A store file written only by \<^verbatim>\<open>append_to_csv\<close> with profile rows: the header
  row of the eight profile columns, then rows of eight cells.\<close>

definition csv_wf :: "csv_table \<Rightarrow> bool" where
  "csv_wf t =
     (case t of
        [] \<Rightarrow> False
      | header # rows \<Rightarrow> header = profile_columns \<and> list_all (\<lambda>r. length r = length profile_columns) rows)"

definition store_ok :: "csv_table option \<Rightarrow> bool" where
  "store_ok t = (case t of None \<Rightarrow> True | Some tbl \<Rightarrow> csv_wf tbl)"

definition csv_line :: "row \<Rightarrow> string list" where
  "csv_line r = map (csv_cell \<circ> snd) r"

definition read_back :: "row \<Rightarrow> row" where
  "read_back r = map (\<lambda>(k, v). (k, read_cell (csv_cell v))) r"

lemma append_to_csv_files:
  "append_to_csv e r fname w =
     (Inr (), w\<lparr>files := (files w)(resolve (cwd e) fname \<mapsto>
        (case files w (resolve (cwd e) fname) of
           None \<Rightarrow> [map fst r, csv_line r]
         | Some t \<Rightarrow> t @ [csv_line r]))\<rparr>)"
  by (simp add: append_to_csv_def csv_line_def Let_def split: option.split)

lemma length_profile_columns [simp]: "length profile_columns = 8"
  by (simp add: profile_columns_def)

lemma csv_wf_append:
  "csv_wf t \<Longrightarrow> length r = 8 \<Longrightarrow> csv_wf (t @ [r])"
  by (auto simp: csv_wf_def split: list.splits)

lemma last_row_wf:
  assumes "csv_wf t" and "length line = 8"
  shows "last_row (Some (t @ [line])) = Inr (zip profile_columns (map read_cell line))"
proof (cases t)
  case Nil
  then show ?thesis using assms by (simp add: csv_wf_def)
next
  case (Cons h rows)
  with assms have h: "h = profile_columns" and "list_all (\<lambda>r. length r = 8) (rows @ [line])"
    by (simp_all add: csv_wf_def)
  then have "list_all (\<lambda>r. length r \<le> length h) (rows @ [line])"
    by (simp add: list_all_iff)
  then show ?thesis using Cons h assms(2) by (simp add: last_row_def)
qed

lemma last_row_new:
  assumes "map fst r = profile_columns"
  shows "last_row (Some [map fst r, csv_line r]) = Inr (zip profile_columns (map read_cell (csv_line r)))"
proof -
  have "length (map fst r) = 8" using assms by simp
  then have "length (csv_line r) = 8" by (simp add: csv_line_def)
  then show ?thesis using assms by (simp add: last_row_def)
qed

lemma zip_read_back:
  "map fst r = hs \<Longrightarrow> zip hs (map read_cell (csv_line r)) = read_back r"
proof (induction r arbitrary: hs)
  case Nil
  then show ?case by (simp add: read_back_def csv_line_def)
next
  case (Cons a r)
  then show ?case by (cases a) (auto simp: read_back_def csv_line_def)
qed

lemma append_to_csv_at:
  assumes "map fst r = profile_columns" and "store_ok (files w (resolve (cwd e) fname))"
  shows "\<exists>t. files (snd (append_to_csv e r fname w)) (resolve (cwd e) fname) = Some (t @ [csv_line r])
     \<and> csv_wf t"
proof (cases "files w (resolve (cwd e) fname)")
  case None
  have "csv_wf [map fst r]" using assms(1) by (simp add: csv_wf_def)
  then show ?thesis using None by (simp add: append_to_csv_files)
next
  case (Some t)
  then show ?thesis using assms(2) by (simp add: append_to_csv_files store_ok_def)
qed

lemma length_csv_line: "map fst r = profile_columns \<Longrightarrow> length (csv_line r) = 8"
proof -
  assume "map fst r = profile_columns"
  then have "length (map fst r) = 8" by simp
  then show ?thesis by (simp add: csv_line_def)
qed

lemma resolve_filename_eq_csv_path:
  "resolve d filename = csv_path \<longleftrightarrow> d = ''/Database''"
proof -
  have "resolve d filename = d @ ''/user_info.csv''" by (simp add: resolve_def filename_def)
  moreover have "csv_path = ''/Database'' @ ''/user_info.csv''" by (simp add: csv_path_def)
  ultimately show ?thesis by (metis append_same_eq)
qed

text \<open>A sample profile row, with the time columns already converted to strings.\<close>

definition sample_profile :: row where
  "sample_profile =
     [(''name'', PStr ''Ann''), (''gender'', PNone), (''livingAdd'', PStr ''123 Main St''),
      (''workAdd'', PStr ''456 Oak Ave''), (''morningRoutine'', PStr ''Breakfast, Walk the dog''),
      (''sleepT'', PStr ''23:00:00''), (''wakeT'', PStr ''07:00:00''), (''timAtWork'', PStr ''09:00:00'')]"

lemma sample_profile_columns: "map fst sample_profile = profile_columns"
  by (simp add: sample_profile_def profile_columns_def)

lemma store_ok_append:
  assumes "map fst r = profile_columns" and "store_ok (files w p)"
  shows "store_ok (files (snd (append_to_csv e r fname w)) p)"
proof (cases "p = resolve (cwd e) fname")
  case True
  obtain t where t: "files (snd (append_to_csv e r fname w)) p = Some (t @ [csv_line r])" and wf: "csv_wf t"
    using append_to_csv_at [OF assms(1)] assms(2) True by blast
  have "csv_wf (t @ [csv_line r])" using wf length_csv_line [OF assms(1)] by (rule csv_wf_append)
  then show ?thesis using t by (simp add: store_ok_def)
next
  case False
  then show ?thesis using assms(2) by (simp add: append_to_csv_files)
qed

section \<open>Properties of the store\<close>

text \<open>
  C25: an append adds exactly one row to the store file and keeps it well formed: if the
  file is absent or well formed before, afterwards it holds what it held (or, when it
  was absent, the header of the eight profile columns) followed by the one new row.
  The header is written when the file is created and never again.
\<close>

theorem append_to_csv_adds_row:
  assumes "map fst r = profile_columns" and "store_ok (files w (resolve (cwd e) fname))"
  shows "files (snd (append_to_csv e r fname w)) (resolve (cwd e) fname) =
           Some ((case files w (resolve (cwd e) fname) of None \<Rightarrow> [profile_columns] | Some t \<Rightarrow> t)
                 @ [csv_line r]) \<and>
         store_ok (files (snd (append_to_csv e r fname w)) (resolve (cwd e) fname))"
  using store_ok_append [OF assms, of e fname] assms(1)
  by (simp add: append_to_csv_files csv_line_def split: option.split)

theorem append_to_csv_adds_row_witness:
  "files (snd (append_to_csv sample_ext sample_profile filename world0)) (resolve (cwd sample_ext) filename) =
     Some ([profile_columns] @ [csv_line sample_profile]) \<and>
   store_ok (files (snd (append_to_csv sample_ext sample_profile filename world0))
      (resolve (cwd sample_ext) filename))"
proof -
  have ok: "store_ok (files world0 (resolve (cwd sample_ext) filename))"
    by (simp add: world0_def store_ok_def)
  have none: "files world0 (resolve (cwd sample_ext) filename) = None" by (simp add: world0_def)
  show ?thesis using append_to_csv_adds_row [OF sample_profile_columns ok, unfolded none option.case] .
qed

text \<open>
  C9: reading the file back after an append gives the appended row with its cells
  converted as text does: strings come back unchanged unless pandas reads them as
  missing, \<^verbatim>\<open>None\<close> comes back as NaN.
\<close>

theorem append_then_read:
  assumes "map fst r = profile_columns" and "store_ok (files w (resolve (cwd e) fname))"
  shows "last_row (files (snd (append_to_csv e r fname w)) (resolve (cwd e) fname)) = Inr (read_back r)"
proof -
  obtain t where t: "files (snd (append_to_csv e r fname w)) (resolve (cwd e) fname) = Some (t @ [csv_line r])"
    and wf: "csv_wf t"
    using append_to_csv_at [OF assms] by blast
  show ?thesis
    using t last_row_wf [OF wf length_csv_line [OF assms(1)]] zip_read_back [OF assms(1)] by simp
qed

theorem append_then_read_witness:
  "last_row (files (snd (append_to_csv sample_ext sample_profile filename world0))
      (resolve (cwd sample_ext) filename)) = Inr (read_back sample_profile)"
proof -
  have "store_ok (files world0 (resolve (cwd sample_ext) filename))"
    by (simp add: world0_def store_ok_def)
  then show ?thesis using append_then_read [OF sample_profile_columns] by blast
qed

text \<open>
  C10: the script appends to \<^verbatim>\<open>user_info.csv\<close> in the working directory but reads
  \<^verbatim>\<open>/Database/user_info.csv\<close>: the row just submitted is what
  \<^verbatim>\<open>get_user_info\<close> returns only when the working directory is \<^verbatim>\<open>/Database\<close>;
  from any other directory the read ignores the submission.
\<close>

theorem get_user_info_after_append:
  assumes "map fst r = profile_columns" and "store_ok (files w csv_path)"
  shows "fst (get_user_info (snd (append_to_csv e r filename w))) =
    (if cwd e = ''/Database'' then Inr (read_back r) else fst (get_user_info w))"
proof (cases "cwd e = ''/Database''")
  case True
  then have p: "resolve (cwd e) filename = csv_path" by (simp add: resolve_filename_eq_csv_path)
  have "last_row (files (snd (append_to_csv e r filename w)) csv_path) = Inr (read_back r)"
    using append_then_read [of r w e filename] assms by (simp only: p)
  then show ?thesis using True by (simp add: get_user_info_def)
next
  case False
  then have "resolve (cwd e) filename \<noteq> csv_path" by (simp add: resolve_filename_eq_csv_path)
  then show ?thesis using False by (simp add: get_user_info_def append_to_csv_files)
qed

theorem get_user_info_after_append_witness:
  "fst (get_user_info (snd (append_to_csv (sample_ext\<lparr>cwd := ''/Database''\<rparr>) sample_profile filename world0))) =
     Inr (read_back sample_profile) \<and>
   fst (get_user_info (snd (append_to_csv sample_ext sample_profile filename world0))) =
     Inl FileNotFoundError"
proof -
  have ok: "store_ok (files world0 csv_path)" by (simp add: world0_def store_ok_def)
  have "cwd sample_ext \<noteq> ''/Database''" by (simp add: sample_ext_def)
  then show ?thesis
    using get_user_info_after_append [OF sample_profile_columns ok, of "sample_ext\<lparr>cwd := ''/Database''\<rparr>"]
      get_user_info_after_append [OF sample_profile_columns ok, of sample_ext]
    by (simp add: get_user_info_def last_row_def world0_def)
qed

end
