(* ===== verification/Prompts.thy ===== *)
theory Prompts
  imports Url Profile
begin

text \<open>
  The Reasoning and Decision Extraction stages (\<^verbatim>\<open>app.py\<close>, lines 136--189) up to the
  text sent to the chat model.  The profile frame is turned into records and encoded by
  \<^verbatim>\<open>json.dumps(..., indent=2)\<close>: strings are quoted with every character outside
  printable ASCII, the quote and the backslash escaped (\<^verbatim>\<open>ensure_ascii\<close>), \<^verbatim>\<open>None\<close>
  is \<^verbatim>\<open>null\<close>, NaN is \<^verbatim>\<open>NaN\<close>, and a \<^verbatim>\<open>datetime.time\<close> raises \<^verbatim>\<open>TypeError\<close>
  (it is not JSON serialisable).  The two prompts are the templates of the source
  filled in as \<^verbatim>\<open>ChatPromptTemplate.from_template\<close> does, with \<^verbatim>\<open>{user_info}\<close>,
  \<^verbatim>\<open>{eta_minutes}\<close> (\<^verbatim>\<open>str\<close> of the estimate, \<^verbatim>\<open>"None"\<close> when unavailable) and
  \<^verbatim>\<open>{first_response}\<close>; the other keys passed to \<^verbatim>\<open>invoke\<close> (\<^verbatim>\<open>text\<close>,
  \<^verbatim>\<open>question\<close>) appear in no template and reach no prompt.
\<close>

section \<open>JSON strings\<close>

definition backslash :: char where
  "backslash = CHR 0x5C"

definition dquote :: char where
  "dquote = CHR 0x22"

definition hex_lower :: "nat \<Rightarrow> char" where
  "hex_lower n = (if n < 10 then char_of (48 + n) else char_of (87 + n))"

definition json_escape_char :: "char \<Rightarrow> string" where
  "json_escape_char c =
     (let n = of_char c :: nat in
      if n = 34 then [backslash, dquote]
      else if n = 92 then [backslash, backslash]
      else if n = 10 then [backslash, CHR ''n'']
      else if n = 13 then [backslash, CHR ''r'']
      else if n = 9 then [backslash, CHR ''t'']
      else if n = 8 then [backslash, CHR ''b'']
      else if n = 12 then [backslash, CHR ''f'']
      else if n < 32 \<or> 126 < n
      then [backslash, CHR ''u'', CHR ''0'', CHR ''0'', hex_lower (n div 16), hex_lower (n mod 16)]
      else [c])"

definition json_str :: "string \<Rightarrow> string" where
  "json_str s = [dquote] @ concat (map json_escape_char s) @ [dquote]"

section \<open>json.dumps with indent=2\<close>

definition indent :: "nat \<Rightarrow> string" where
  "indent lvl = replicate (2 * lvl) (CHR '' '')"

fun dumps_value :: "pyval \<Rightarrow> string result" where
  "dumps_value (PStr s) = Inr (json_str s)"
| "dumps_value PNone = Inr ''null''"
| "dumps_value PNaN = Inr ''NaN''"
| "dumps_value (PTime t) = Inl TypeError"

text \<open>The encoder stops at the first value it cannot encode.\<close>

fun all_ok :: "'a result list \<Rightarrow> 'a list result" where
  "all_ok [] = Inr []"
| "all_ok (r # rs) = rbind r (\<lambda>x. rbind (all_ok rs) (\<lambda>xs. Inr (x # xs)))"

definition dumps_dict :: "nat \<Rightarrow> row \<Rightarrow> string result" where
  "dumps_dict lvl r =
     (if r = [] then Inr ''{}''
      else rbind (all_ok (map (\<lambda>(k, v). rbind (dumps_value v)
                                  (\<lambda>s. Inr (indent (Suc lvl) @ json_str k @ '': '' @ s))) r))
             (\<lambda>items. Inr (''{'' @ nl @ py_join ('','' @ nl) items @ nl @ indent lvl @ ''}'')))"

text \<open>\<^verbatim>\<open>json.dumps(df.to_dict('records'), indent=2)\<close>.\<close>

definition dumps_records :: "row list \<Rightarrow> string result" where
  "dumps_records rows =
     (if rows = [] then Inr ''[]''
      else rbind (all_ok (map (dumps_dict 1) rows))
             (\<lambda>ds. Inr (''['' @ nl @ py_join ('','' @ nl) (map (\<lambda>d. indent 1 @ d) ds) @ nl @ '']'')))"

section \<open>The prompts\<close>

definition eta_text :: "int option \<Rightarrow> string" where
  "eta_text eta = (case eta of None \<Rightarrow> ''None'' | Some m \<Rightarrow> py_str_int m)"

definition template1_tail :: string where
  "template1_tail =
     nl @
     nl @
     ''        ----------------'' @
     nl @
     nl @
     ''        Given the user's morning routine, home address, work address, and estimated travel time (ETA) from Google Maps API, determine the appropriate wake-up time to ensure the user can complete their morning routine and reach work on time. Take into account the fixed duration of each task in the morning routine, the user's usual wake-up time, and the time they need to be at work. You should adjust the wake-up time if necessary, based on the current ETA and total duration of the morning routine, do not assume the ETA, instead use the value provided. The goal is to provide a wake-up time that ensures punctuality without disrupting the user's usual schedule more than necessary.'' @
     nl @
     nl @
     ''        ----------------''"

definition template2_tail :: string where
  "template2_tail =
     nl @
     nl @
     ''        ----------------'' @
     nl @
     nl @
     ''        Based on the first response, provide me with a boolean value and the new wake-up time if any is recommended. If the user needs to change their alarm, use the following format: 'TRUE, 7:30am' or 'FALSE'' @ [CHR 0x27] @
     nl @
     nl @
     ''        ----------------''"

definition prompt1 :: "string \<Rightarrow> int option \<Rightarrow> string" where
  "prompt1 user_info_str eta_minutes =
     ''user information: '' @ user_info_str @ '' and ETA by google:'' @ eta_text eta_minutes @
     template1_tail"

definition prompt2 :: "string \<Rightarrow> string" where
  "prompt2 first_response = ''Analyse the first response: '' @ first_response @ template2_tail"

section \<open>The encoding of the submitted profile\<close>

lemma dumps_times_to_str_ok: "\<exists>s. dumps_records [times_to_str (form_row f)] = Inr s"
  by (auto simp: form_row_def times_to_str_def column_astype_str_def dumps_records_def dumps_dict_def
      split: option.splits)

text \<open>
  C26: encoding the submitted profile never raises: \<^verbatim>\<open>json.dumps\<close> of the frame
  raises \<^verbatim>\<open>TypeError\<close> on its time objects, and the conversion of the three time
  columns to strings (lines 124--126) is exactly what makes it succeed.
\<close>

theorem dumps_profile_ok:
  assumes "user_input f w = (Inr (Some r), w')"
  shows "dumps_records [r] = Inl TypeError \<and> (\<exists>s. dumps_records [times_to_str r] = Inr s)"
  using assms
  by (auto simp: user_input_def form_row_def times_to_str_def column_astype_str_def
      dumps_records_def dumps_dict_def split: if_splits option.splits)

theorem dumps_profile_ok_witness:
  "dumps_records [form_row sample_form] = Inl TypeError \<and>
   (\<exists>s. dumps_records [times_to_str (form_row sample_form)] = Inr s)"
proof -
  have u: "user_input sample_form world0 =
      (Inr (Some (form_row sample_form)),
       world0\<lparr>events := events world0 @ [Write ''Thank you for submitting your information!'']\<rparr>)"
    by (simp add: user_input_def sample_form_def act_seq_def act_bind_def)
  show ?thesis using dumps_profile_ok [OF u] .
qed

end
