(* ===== verification/Pipeline.thy ===== *)
theory Pipeline
  imports Decision Commute Prompts
begin

text \<open>
  The script as a whole (\<^verbatim>\<open>app.py\<close>, lines 22--24 and 117--203), one Streamlit run:
  the page title, the module-level read of the store, the form, and on a submission the
  pipeline Profile Store \<open>\<rightarrow>\<close> Commute Estimator \<open>\<rightarrow>\<close> Reasoning Stage \<open>\<rightarrow>\<close>
  Decision Extraction \<open>\<rightarrow>\<close> Decision Parser \<open>\<rightarrow>\<close> Action Trigger.  Each stage is one
  definition over the world, composed with \<open>act_bind\<close> as the statements follow each
  other; an exception stops the run and keeps the effects so far.
  The specification's state machine (Idle, ProfileSubmitted, CommuteResolved, Reasoned,
  Decided, AlarmSet or NoOp) is the inductive relation \<open>spec_step\<close> on phases, refined
  with the events each transition shows; \<open>spec_run\<close> is its closure over event lists.
  \<open>runs m p Q\<close> says that every run of \<open>m\<close> from phase \<open>p\<close> appends events that the
  machine accepts, ending, if \<open>m\<close> returns \<open>a\<close>, in a phase \<open>q\<close> with \<open>Q a q\<close>: it is
  the simulation relation by which the stages are shown to refine the machine.
\<close>

section \<open>The stages\<close>

text \<open>\<^verbatim>\<open>d[k]\<close> on the dictionary of a row.\<close>

definition dict_get :: "row \<Rightarrow> string \<Rightarrow> pyval result" where
  "dict_get d k = (case map_of d k of None \<Rightarrow> Inl (KeyError k) | Some v \<Rightarrow> Inr v)"

text \<open>\<^verbatim>\<open>ChatOpenAI(model=..., openai_api_key=openai_api_key)\<close> (lines 153 and 179):
  the client takes the key it is given or, when that is \<^verbatim>\<open>None\<close> or empty, the
  variable \<^verbatim>\<open>OPENAI_API_KEY\<close> of the environment, which after \<^verbatim>\<open>load_dotenv\<close> is the
  same value; with no non-empty key its validation raises \<^verbatim>\<open>ValueError\<close> before
  anything is sent.\<close>

definition chat_model :: "ext \<Rightarrow> unit result" where
  "chat_model e =
     (case openai_api_key e of None \<Rightarrow> Inl ValueError | Some k \<Rightarrow> if k = [] then Inl ValueError else Inr ())"

text \<open>Lines 136--164: encode the submitted profile, build the chain, ask for the
  reasoning, show it.\<close>

definition reasoning_stage :: "ext \<Rightarrow> row \<Rightarrow> int option \<Rightarrow> (world, string) act" where
  "reasoning_stage e user_info eta_minutes =
     act_bind (act_lift (dumps_records [user_info])) (\<lambda>user_info_str.
     act_bind (act_lift (chat_model e)) (\<lambda>_.
     act_bind (call (LlmCall (prompt1 user_info_str eta_minutes)) (llm e (prompt1 user_info_str eta_minutes)))
       (\<lambda>output.
          act_seq (emit (TextArea ''GTP-4 Logic of User's Routine:'' output)) (act_return output))))"

text \<open>Lines 167--189: build the second chain, ask for the canonical answer, show it.\<close>

definition extraction_stage :: "ext \<Rightarrow> string \<Rightarrow> (world, string) act" where
  "extraction_stage e output =
     act_bind (act_lift (chat_model e)) (\<lambda>_.
     act_bind (call (LlmCall (prompt2 output)) (llm e (prompt2 output))) (\<lambda>output2.
       act_seq (emit (Info (''Parser:'' @ nl @ output2))) (act_return output2)))"

text \<open>Lines 191--203: parse the answer and act on it.\<close>

definition decide :: "ext \<Rightarrow> string \<Rightarrow> (world, unit) act" where
  "decide e output2 = act_bind (act_lift (parse_decision output2)) (trigger_alarm e)"

text \<open>Lines 122--203, on a submitted frame.\<close>

definition process :: "ext \<Rightarrow> row \<Rightarrow> (world, unit) act" where
  "process e user_info0 =
     (let user_info = times_to_str user_info0 in
      act_seq (append_to_csv e user_info filename)
      (act_bind get_user_info (\<lambda>user_info_query.
       act_bind (act_lift (dict_get user_info_query ''livingAdd'')) (\<lambda>home.
       act_bind (act_lift (dict_get user_info_query ''workAdd'')) (\<lambda>work.
       act_bind (get_eta e home work (google_maps_api_key e)) (\<lambda>eta_minutes.
       act_bind (reasoning_stage e user_info eta_minutes) (\<lambda>output.
       act_bind (extraction_stage e output) (decide e))))))))"

text \<open>One run of the script.\<close>

definition run_script :: "ext \<Rightarrow> form_values \<Rightarrow> (world, unit) act" where
  "run_script e f =
     act_seq (emit (Title ''Dev300 - Dynamic Alarm Project''))
     (act_seq (emit (Markdown ''Fill out the form below to get started!''))
     (act_seq get_user_info
     (act_bind (user_input f) (\<lambda>user_info.
        case user_info of None \<Rightarrow> act_return () | Some u \<Rightarrow> process e u))))"

section \<open>The specification's state machine\<close>

datatype phase =
    Idle | Titled | PageShown | ProfileSubmitted | CommuteRequested | CommuteResolved
  | Reasoned | ReasoningShown | Extracted | Decided decision | Malformed | AlarmRequested | AlarmSet | NoOp

inductive spec_step :: "phase \<Rightarrow> event \<Rightarrow> phase \<Rightarrow> bool" where
  sm_title: "spec_step Idle (Title s) Titled"
| sm_page: "spec_step Titled (Markdown s) PageShown"
| sm_submit: "spec_step PageShown (Write s) ProfileSubmitted"
| sm_request: "spec_step ProfileSubmitted (HttpGet u) CommuteRequested"
| sm_unavailable_status: "spec_step CommuteRequested (PrintStatusError j) CommuteResolved"
| sm_unavailable_http: "spec_step CommuteRequested (PrintText s) CommuteResolved"
| sm_reason: "spec_step CommuteRequested (LlmCall p) Reasoned"
| sm_reason_unavailable: "spec_step CommuteResolved (LlmCall p) Reasoned"
| sm_show_reasoning: "spec_step Reasoned (TextArea l s) ReasoningShown"
| sm_extract: "spec_step ReasoningShown (LlmCall p) Extracted"
| sm_show_malformed: "parse_decision s = Inl err \<Longrightarrow> spec_step Extracted (Info (''Parser:'' @ nl @ s)) Malformed"
| sm_show_answer: "parse_decision s = Inr d \<Longrightarrow> spec_step Extracted (Info (''Parser:'' @ nl @ s)) (Decided d)"
| sm_set_alarm: "change_alarm d \<Longrightarrow> new_wake_up_time d = Some t \<Longrightarrow>
    spec_step (Decided d) (Exec (alarm_argv t)) AlarmRequested"
| sm_alarm_set: "spec_step AlarmRequested (Success s) AlarmSet"
| sm_no_change: "\<not> change_alarm d \<Longrightarrow> spec_step (Decided d) (Info s) NoOp"

inductive spec_run :: "phase \<Rightarrow> event list \<Rightarrow> phase \<Rightarrow> bool" where
  stop: "spec_run p [] p"
| step: "spec_step p ev q \<Longrightarrow> spec_run q evs r \<Longrightarrow> spec_run p (ev # evs) r"

definition terminal :: "phase \<Rightarrow> bool" where
  "terminal p = (p = PageShown \<or> p = AlarmSet \<or> p = NoOp)"

section \<open>Refinement of the machine by the stages\<close>

definition runs :: "(world, 'a) act \<Rightarrow> phase \<Rightarrow> ('a \<Rightarrow> phase \<Rightarrow> bool) \<Rightarrow> bool" where
  "runs m p Q =
     (\<forall>w r w'. m w = (r, w') \<longrightarrow>
        (\<exists>evs q. events w' = events w @ evs \<and> spec_run p evs q \<and> (\<forall>a. r = Inr a \<longrightarrow> Q a q)))"

lemma spec_run_append:
  "spec_run p xs q \<Longrightarrow> spec_run q ys r \<Longrightarrow> spec_run p (xs @ ys) r"
  by (induction rule: spec_run.induct) (auto intro: spec_run.step)

lemma spec_run_single: "spec_step p ev q \<Longrightarrow> spec_run p [ev] q"
  by (auto intro: spec_run.intros)

lemma runs_return: "Q a p \<Longrightarrow> runs (act_return a) p Q"
  by (auto simp: runs_def intro: spec_run.stop)

lemma runs_lift: "(\<And>a. r = Inr a \<Longrightarrow> Q a p) \<Longrightarrow> runs (act_lift r) p Q"
  by (auto simp: runs_def intro: spec_run.stop)

lemma runs_raise: "runs (act_raise err) p Q"
  by (auto simp: runs_def intro: spec_run.stop)

lemma runs_emit: "spec_step p ev q \<Longrightarrow> Q () q \<Longrightarrow> runs (emit ev) p Q"
  by (auto simp: runs_def intro: spec_run_single)

lemma runs_call: "spec_step p ev q \<Longrightarrow> (\<And>a. r = Inr a \<Longrightarrow> Q a q) \<Longrightarrow> runs (call ev r) p Q"
  by (auto simp: runs_def intro: spec_run_single)

lemma runs_silent:
  "(\<And>w. events (snd (m w)) = events w) \<Longrightarrow> (\<And>w a. fst (m w) = Inr a \<Longrightarrow> Q a p) \<Longrightarrow> runs m p Q"
  unfolding runs_def by (metis append_Nil2 fst_conv snd_conv spec_run.stop)

lemma runs_bind:
  assumes m: "runs m p Q" and f: "\<And>a q. Q a q \<Longrightarrow> runs (f a) q R"
  shows "runs (act_bind m f) p R"
  unfolding runs_def
proof (intro allI impI)
  fix w r w'
  assume run: "act_bind m f w = (r, w')"
  obtain r1 w1 where m1: "m w = (r1, w1)" by fastforce
  from m[unfolded runs_def, rule_format, OF m1] obtain evs q where e1: "events w1 = events w @ evs"
    and s1: "spec_run p evs q" and Q: "\<forall>a. r1 = Inr a \<longrightarrow> Q a q"
    by blast
  show "\<exists>evs q. events w' = events w @ evs \<and> spec_run p evs q \<and> (\<forall>a. r = Inr a \<longrightarrow> R a q)"
  proof (cases r1)
    case (Inl err)
    then show ?thesis using run m1 e1 s1 by (auto simp: act_bind_def)
  next
    case (Inr a)
    then have fa: "f a w1 = (r, w')" using run m1 by (simp add: act_bind_def)
    from Q Inr have "runs (f a) q R" using f by blast
    from this[unfolded runs_def, rule_format, OF fa] obtain evs2 q2
      where "events w' = events w1 @ evs2" "spec_run q evs2 q2" "\<forall>b. r = Inr b \<longrightarrow> R b q2"
      by blast
    then show ?thesis using e1 s1 spec_run_append by fastforce
  qed
qed

lemma runs_seq:
  "runs m p Q \<Longrightarrow> (\<And>a q. Q a q \<Longrightarrow> runs n q R) \<Longrightarrow> runs (act_seq m n) p R"
  unfolding act_seq_def by (rule runs_bind)

lemma runs_weaken: "runs m p Q \<Longrightarrow> (\<And>a q. Q a q \<Longrightarrow> R a q) \<Longrightarrow> runs m p R"
  unfolding runs_def by fast

lemma runs_emit_seq: "spec_step p ev q \<Longrightarrow> runs n q R \<Longrightarrow> runs (act_seq (emit ev) n) p R"
  by (erule runs_seq[OF runs_emit[where Q = "\<lambda>_ q'. q' = q"]]) simp_all

lemma runs_emit_bind: "spec_step p ev q \<Longrightarrow> runs (f ()) q R \<Longrightarrow> runs (act_bind (emit ev) f) p R"
  by (erule runs_bind[OF runs_emit[where Q = "\<lambda>_ q'. q' = q"]]) simp_all

lemma runs_call_bind:
  "spec_step p ev q \<Longrightarrow> (\<And>a. r = Inr a \<Longrightarrow> runs (f a) q R) \<Longrightarrow> runs (act_bind (call ev r) f) p R"
  by (erule runs_bind[OF runs_call[where Q = "\<lambda>a q'. r = Inr a \<and> q' = q"]]) auto

lemma runs_lift_bind:
  "(\<And>a. r = Inr a \<Longrightarrow> runs (f a) p R) \<Longrightarrow> runs (act_bind (act_lift r) f) p R"
  by (cases r) (simp_all add: runs_raise)

text \<open>Syntax-directed rules: each consumes the first statement of an action and leaves the
  rest to be shown from the phase that statement reaches.\<close>

lemmas runs_steps = runs_return runs_lift runs_raise runs_emit runs_call
  runs_emit_seq runs_emit_bind runs_call_bind runs_lift_bind

section \<open>Each stage refines its part of the machine\<close>

lemma runs_directions_reply:
  "runs (directions_reply resp) CommuteRequested (\<lambda>_ q. q = CommuteRequested \<or> q = CommuteResolved)"
  unfolding directions_reply_def
  by (auto intro!: runs_steps intro: spec_step.intros split: option.split)

lemma runs_get_eta:
  "runs (get_eta e h w k) ProfileSubmitted (\<lambda>_ q. q = CommuteRequested \<or> q = CommuteResolved)"
  unfolding get_eta_def
  by (auto intro!: runs_steps runs_directions_reply intro: spec_step.intros)

lemma runs_append_to_csv: "runs (append_to_csv e u fn) p (\<lambda>_ q. q = p)"
  by (rule runs_silent) (simp_all add: append_to_csv_def Let_def split: option.split)

lemma runs_get_user_info: "runs get_user_info p (\<lambda>_ q. q = p)"
  by (rule runs_silent) (simp_all add: get_user_info_def)

lemma runs_reasoning_stage:
  "p = CommuteRequested \<or> p = CommuteResolved \<Longrightarrow>
   runs (reasoning_stage e u eta) p (\<lambda>_ q. q = ReasoningShown)"
  unfolding reasoning_stage_def
  by (auto intro!: runs_steps intro: spec_step.intros)

abbreviation shown :: "string \<Rightarrow> phase \<Rightarrow> bool" where
  "shown s q \<equiv> (case parse_decision s of Inl _ \<Rightarrow> q = Malformed | Inr d \<Rightarrow> q = Decided d)"

lemma runs_extraction_stage:
  "runs (extraction_stage e out) ReasoningShown shown"
proof -
  have show_step: "spec_step Extracted (Info (''Parser:'' @ nl @ s))
          (case parse_decision s of Inl _ \<Rightarrow> Malformed | Inr d \<Rightarrow> Decided d)" for s
    by (cases "parse_decision s"; simp only: sum.case; rule sm_show_malformed sm_show_answer; assumption)
  show ?thesis
    unfolding extraction_stage_def
    by (intro runs_lift_bind runs_call_bind[OF sm_extract] runs_emit_seq[OF show_step] runs_return)
       (simp split: sum.split)
qed

lemma runs_trigger_alarm:
  "runs (trigger_alarm e d) (Decided d) (\<lambda>_ q. q = AlarmSet \<or> q = NoOp)"
  unfolding trigger_alarm_def
  by (auto intro!: runs_steps intro: spec_step.intros split: option.split)

lemma runs_decide:
  "shown s p \<Longrightarrow> runs (decide e s) p (\<lambda>_ q. q = AlarmSet \<or> q = NoOp)"
  unfolding decide_def
  by (auto intro!: runs_steps runs_trigger_alarm split: sum.splits)

lemma runs_process: "runs (process e u) ProfileSubmitted (\<lambda>_ q. q = AlarmSet \<or> q = NoOp)"
proof -
  have stages: "q = CommuteRequested \<or> q = CommuteResolved \<Longrightarrow>
      runs (act_bind (reasoning_stage e u' eta) (\<lambda>output. act_bind (extraction_stage e output) (decide e)))
        q (\<lambda>_ q. q = AlarmSet \<or> q = NoOp)" for q u' eta
    by (rule runs_bind[OF runs_reasoning_stage], assumption)
       (auto intro: runs_bind[OF runs_extraction_stage] runs_decide)
  show ?thesis
    unfolding process_def Let_def
    by (auto intro!: runs_seq[OF runs_append_to_csv] runs_bind[OF runs_get_user_info]
        runs_lift_bind runs_bind[OF runs_get_eta] stages)
qed

lemma runs_user_input:
  "runs (user_input f) PageShown
     (\<lambda>u q. (u = None \<and> q = PageShown) \<or> (u \<noteq> None \<and> q = ProfileSubmitted))"
  unfolding user_input_def
  by (auto intro!: runs_steps intro: spec_step.intros)

text \<open>A run without a submission ends with the page shown; a run with one ends with the
  alarm set or nothing to change.\<close>

lemma act_bind_seq: "act_bind (act_seq m n) f = act_seq m (act_bind n f)"
  by (simp add: act_seq_def act_bind_def fun_eq_iff split: prod.splits sum.splits)

lemma runs_run_script_phase:
  "runs (run_script e f) Idle
     (\<lambda>_ q. if submit_button f then q = AlarmSet \<or> q = NoOp else q = PageShown)"
proof (cases "submit_button f")
  case True
  then have "run_script e f =
      act_seq (emit (Title ''Dev300 - Dynamic Alarm Project''))
       (act_seq (emit (Markdown ''Fill out the form below to get started!''))
        (act_seq get_user_info
         (act_seq (emit (Write ''Thank you for submitting your information!'')) (process e (form_row f)))))"
    by (simp add: run_script_def user_input_def act_bind_seq)
  then show ?thesis
    using True
    by (auto intro!: runs_emit_seq[OF sm_title] runs_emit_seq[OF sm_page] runs_seq[OF runs_get_user_info]
        runs_emit_seq[OF sm_submit] runs_process)
next
  case False
  then have "run_script e f =
      act_seq (emit (Title ''Dev300 - Dynamic Alarm Project''))
       (act_seq (emit (Markdown ''Fill out the form below to get started!''))
        (act_seq get_user_info (act_return ())))"
  proof -
    have "act_return () = (Pair (Inr ()) :: (world, unit) act)" by (simp add: fun_eq_iff)
    then show ?thesis using False by (simp add: run_script_def user_input_def)
  qed
  then show ?thesis
    using False
    by (auto intro!: runs_emit_seq[OF sm_title] runs_emit_seq[OF sm_page] runs_seq[OF runs_get_user_info]
        runs_return)
qed

lemma runs_run_script: "runs (run_script e f) Idle (\<lambda>_ q. terminal q)"
  by (rule runs_weaken [OF runs_run_script_phase]) (auto simp: terminal_def split: if_splits)

section \<open>What the machine allows\<close>

inductive_cases spec_step_ExecE: "spec_step p (Exec v) q"
inductive_cases spec_step_DecidedE: "spec_step p ev (Decided d)"
inductive_cases spec_step_AlarmRequestedE: "spec_step AlarmRequested ev q"
inductive_cases spec_step_AlarmSetE: "spec_step AlarmSet ev q"
inductive_cases spec_run_ConsE: "spec_run p (ev # evs) q"

lemma spec_run_AlarmSet: "spec_run AlarmSet evs q \<Longrightarrow> evs = []"
  by (cases evs) (auto elim: spec_run_ConsE spec_step_AlarmSetE)

lemma spec_run_AlarmRequested: "spec_run AlarmRequested evs q \<Longrightarrow> execs evs = []"
  by (cases evs) (auto elim!: spec_run_ConsE spec_step_AlarmRequestedE dest: spec_run_AlarmSet)

lemma decision_eq: "change_alarm d \<Longrightarrow> new_wake_up_time d = Some t \<Longrightarrow>
    d = \<lparr>change_alarm = True, new_wake_up_time = Some t\<rparr>"
  by (cases d) simp

text \<open>Along any run of the machine, at most one alarm command is started, and its time is
  the one of a decision: either the phase the run starts from, or an answer shown in the
  run that parses to that decision.\<close>

lemma spec_run_execs:
  "spec_run p evs q \<Longrightarrow>
   execs evs = [] \<or>
   (\<exists>t. execs evs = [alarm_argv t] \<and>
      ((\<exists>d. p = Decided d \<and> change_alarm d \<and> new_wake_up_time d = Some t) \<or>
       (\<exists>s. Info (''Parser:'' @ nl @ s) \<in> set evs \<and>
            parse_decision s = Inr \<lparr>change_alarm = True, new_wake_up_time = Some t\<rparr>)))"
proof (induction rule: spec_run.induct)
  case (stop p)
  then show ?case by simp
next
  case (step p ev q evs r)
  show ?case
  proof (cases "\<exists>v. ev = Exec v")
    case True
    then obtain v where v: "ev = Exec v" by blast
    with step.hyps(1) obtain d t where "p = Decided d" "change_alarm d" "new_wake_up_time d = Some t"
      "v = alarm_argv t" "q = AlarmRequested"
      by (auto elim: spec_step_ExecE)
    with step.hyps(2) v show ?thesis by (auto dest: spec_run_AlarmRequested)
  next
    case False
    then have ex: "execs (ev # evs) = execs evs" by (cases ev) simp_all
    from step.IH show ?thesis
    proof (elim disjE exE conjE)
      fix t d assume "execs evs = [alarm_argv t]" "q = Decided d" "change_alarm d"
        "new_wake_up_time d = Some t"
      with step.hyps(1) ex show ?thesis
        by (auto elim!: spec_step_DecidedE dest: decision_eq)
    qed (use ex in auto)
  qed
qed

section \<open>A sample installation\<close>

text \<open>The services of the sample: the Directions API answers with a 30-minute leg in
  traffic (1800 s), the chat model answers every prompt with \<open>answer\<close>, the alarm
  script exits with status 0; the script runs in \<^verbatim>\<open>/Database\<close>, the OpenAI key is
  set in the environment and the Maps key in \<^verbatim>\<open>.env\<close>.\<close>

definition demo_ext :: "string \<Rightarrow> ext" where
  "demo_ext answer =
     \<lparr>cwd = ''/Database'', environ = [''OPENAI_API_KEY'' \<mapsto> ''sk-demo''],
      dotenv = [''GOOGLE_MAPS_API_KEY'' \<mapsto> ''demo-key''],
      http = (\<lambda>_. Inr (sample_reply [(''duration'', JObj [(''value'', JInt 1500)]),
                                     (''duration_in_traffic'', JObj [(''value'', JInt 1800)])])),
      llm = (\<lambda>_. Inr answer), alarm = (\<lambda>_. Inr 0)\<rparr>"

text \<open>A store holding one earlier submission.\<close>

definition demo_world :: world where
  "demo_world = \<lparr>files = (\<lambda>_. None)(csv_path \<mapsto> [profile_columns, csv_line sample_profile]), events = []\<rparr>"

text \<open>The text of the submitted profile as \<^verbatim>\<open>json.dumps\<close> renders it, and the events
  of a sample run up to the shown answer.\<close>

definition demo_user_info_str :: string where
  "demo_user_info_str = (case dumps_records [sample_profile] of Inr s \<Rightarrow> s | Inl _ \<Rightarrow> [])"

definition demo_prefix :: "string \<Rightarrow> event list" where
  "demo_prefix answer =
     [Title ''Dev300 - Dynamic Alarm Project'', Markdown ''Fill out the form below to get started!'',
      Write ''Thank you for submitting your information!'',
      HttpGet (eta_url ''123 Main St'' ''456 Oak Ave'' (Some ''demo-key'')),
      LlmCall (prompt1 demo_user_info_str (Some 30)),
      TextArea ''GTP-4 Logic of User's Routine:'' answer,
      LlmCall (prompt2 answer), Info (''Parser:'' @ nl @ answer)]"

definition demo_store :: "string \<Rightarrow> csv_table option" where
  "demo_store = (\<lambda>_. None)(csv_path \<mapsto> [profile_columns, csv_line sample_profile, csv_line sample_profile])"

lemma demo_ext_fields:
  "cwd (demo_ext a) = ''/Database''" "google_maps_api_key (demo_ext a) = Some ''demo-key''"
  "chat_model (demo_ext a) = Inr ()"
  "llm (demo_ext a) p = Inr a" "alarm (demo_ext a) v = Inr 0"
  by (simp_all add: demo_ext_def google_maps_api_key_def load_dotenv_def chat_model_def openai_api_key_def)

lemma times_to_str_sample_form: "times_to_str (form_row sample_form) = sample_profile"
  by (simp add: times_to_str_def form_row_def sample_form_def sample_profile_def column_astype_str_def
      time_str_def pad2_def py_rstrip_def py_isspace_def char_of_eq_iff)

lemma dumps_sample_profile: "\<exists>s. dumps_records [sample_profile] = Inr s"
  by (simp add: sample_profile_def dumps_records_def dumps_dict_def)

lemma last_row_read_back:
  "csv_wf t \<Longrightarrow> map fst r = profile_columns \<Longrightarrow> last_row (Some (t @ [csv_line r])) = Inr (read_back r)"
  using last_row_wf [OF _ length_csv_line] zip_read_back by simp

lemma last_row_demo:
  "last_row (Some [profile_columns, csv_line sample_profile]) = Inr (read_back sample_profile)"
  "last_row (Some [profile_columns, csv_line sample_profile, csv_line sample_profile]) =
     Inr (read_back sample_profile)"
  using last_row_read_back [of "[profile_columns]" sample_profile]
    last_row_read_back [of "[profile_columns, csv_line sample_profile]" sample_profile]
    length_csv_line [OF sample_profile_columns]
  by (simp_all add: csv_wf_def sample_profile_columns)

lemma read_back_sample_profile:
  "read_back sample_profile =
     [(''name'', PStr ''Ann''), (''gender'', PNaN), (''livingAdd'', PStr ''123 Main St''),
      (''workAdd'', PStr ''456 Oak Ave''), (''morningRoutine'', PStr ''Breakfast, Walk the dog''),
      (''sleepT'', PStr ''23:00:00''), (''wakeT'', PStr ''07:00:00''), (''timAtWork'', PStr ''09:00:00'')]"
  by (simp add: read_back_def sample_profile_def read_cell_def na_values_def)

lemma get_eta_demo:
  "get_eta (demo_ext a) (PStr ''123 Main St'') (PStr ''456 Oak Ave'') k w =
     (Inr (Some 30), w\<lparr>events := events w @ [HttpGet (eta_url ''123 Main St'' ''456 Oak Ave'' k)]\<rparr>)"
  by (simp add: get_eta_PStr demo_ext_def directions_reply_def sample_reply_def sample_data_def
      first_leg_def eta_of_leg_def)

lemma submit_sample_form: "submit_button sample_form"
  by (simp add: sample_form_def)

lemma dumps_demo: "dumps_records [sample_profile] = Inr demo_user_info_str"
  using dumps_sample_profile by (auto simp: demo_user_info_str_def)

lemma demo_prefix_Info:
  "Info (''Parser:'' @ nl @ a) \<in> set (demo_prefix a)" "execs (demo_prefix a) = []"
  by (simp_all add: demo_prefix_def)

lemmas demo_simps = demo_ext_fields times_to_str_sample_form last_row_demo read_back_sample_profile
  get_eta_demo submit_sample_form

text \<open>The sample run up to the answer: the submission is stored, read back, the commute
  is estimated at 30 minutes, both prompts are sent and the answer is shown; what follows
  is \<^verbatim>\<open>decide\<close> on the answer.\<close>

lemma run_script_demo:
  "run_script (demo_ext a) sample_form demo_world =
     decide (demo_ext a) a \<lparr>files = demo_store, events = demo_prefix a\<rparr>"
  by (simp add: demo_simps dumps_demo run_script_def process_def Let_def user_input_def act_seq_def
      act_bind_def get_user_info_def demo_world_def append_to_csv_files resolve_def filename_def
      csv_path_def dict_get_def reasoning_stage_def extraction_stage_def demo_prefix_def demo_store_def)

section \<open>Runs without a usable OpenAI key\<close>

lemma get_eta_events:
  "get_eta e h a k w = (r, w') \<Longrightarrow>
   \<exists>evs. events w' = events w @ evs \<and> prompts_sent evs = [] \<and> execs evs = []"
  by (cases h; cases a)
     (auto simp: get_eta_def directions_reply_def act_bind_def act_seq_def
           split: sum.splits option.splits if_splits prod.splits)

lemma process_no_chat_model:
  assumes "chat_model e \<noteq> Inr ()" and "process e u w = (r, w')"
  shows "r \<noteq> Inr () \<and> (\<exists>evs. events w' = events w @ evs \<and> prompts_sent evs = [] \<and> execs evs = [])"
  using assms
  by (auto simp: process_def reasoning_stage_def Let_def act_bind_def act_seq_def append_to_csv_files
        get_user_info_def split: sum.splits prod.splits dest!: get_eta_events)

section \<open>Progress: when a run returns\<close>

text \<open>The well-behaved surroundings of a submitted run: the store is read from the
  working directory, the services answer, the key is usable, the model never answers
  the bare \<^verbatim>\<open>TRUE\<close> and the alarm script always starts.\<close>

definition services_ok :: "ext \<Rightarrow> bool" where
  "services_ok e =
     (cwd e = ''/Database'' \<and> chat_model e = Inr () \<and>
      (\<forall>u. \<exists>r. http e u = Inr r \<and> reply_ok r) \<and>
      (\<forall>p. \<exists>a. llm e p = Inr a \<and> a \<noteq> ''TRUE'') \<and>
      (\<forall>v. \<exists>c. alarm e v = Inr c))"

lemma profile_columns_times_to_str: "map fst (times_to_str (form_row f)) = profile_columns"
  by (simp add: times_to_str_def column_astype_str_def form_row_def profile_columns_def)

lemma dict_get_read_back_form:
  "dict_get (read_back (times_to_str (form_row f))) ''livingAdd'' = Inr (read_cell (py_rstrip (user_livingAdd f)))"
  "dict_get (read_back (times_to_str (form_row f))) ''workAdd'' = Inr (read_cell (py_rstrip (user_workAdd f)))"
  by (simp_all add: dict_get_def read_back_def times_to_str_def column_astype_str_def form_row_def)

lemma read_cell_PStr: "s \<notin> set na_values \<Longrightarrow> read_cell s = PStr s"
  by (simp add: read_cell_def)

lemma get_eta_returns:
  assumes "services_ok e"
  shows "\<exists>m w'. get_eta e (PStr h) (PStr a) k w = (Inr m, w')"
proof -
  obtain r where r: "http e (eta_url h a k) = Inr r" "reply_ok r"
    using assms unfolding services_ok_def by blast
  then obtain m w' where "directions_reply r (w\<lparr>events := events w @ [HttpGet (eta_url h a k)]\<rparr>) = (Inr m, w')"
    using directions_reply_Inr_iff by blast
  then show ?thesis using r by (simp add: get_eta_PStr)
qed

lemma decide_returns:
  assumes "services_ok e" and "a \<noteq> ''TRUE''"
  shows "\<exists>w'. decide e a w = (Inr (), w')"
proof -
  have alarm: "\<forall>v. \<exists>c. alarm e v = Inr c" using assms(1) by (simp add: services_ok_def)
  obtain d where d: "parse_decision a = Inr d"
    using assms(2) parse_decision_Inl_TRUE by (cases "parse_decision a") auto
  obtain w' where "trigger_alarm e d w = (Inr (), w')"
    using trigger_alarm_returns [OF alarm parse_decision_change_time [OF d]] by blast
  then show ?thesis using d by (simp add: decide_def)
qed

lemma stages_return:
  assumes "services_ok e"
  shows "\<exists>w'. act_bind (reasoning_stage e (times_to_str (form_row f)) eta)
                   (\<lambda>output. act_bind (extraction_stage e output) (decide e)) w = (Inr (), w')"
proof -
  have key: "chat_model e = Inr ()" using assms by (simp add: services_ok_def)
  obtain ans where ans: "\<And>p. llm e p = Inr (ans p)" "\<And>p. ans p \<noteq> ''TRUE''"
    using assms unfolding services_ok_def by metis
  obtain s where s: "dumps_records [times_to_str (form_row f)] = Inr s" using dumps_times_to_str_ok by blast
  let ?a = "ans (prompt2 (ans (prompt1 s eta)))"
  have "\<exists>w2. act_bind (reasoning_stage e (times_to_str (form_row f)) eta)
                   (\<lambda>output. act_bind (extraction_stage e output) (decide e)) w = decide e ?a w2"
    by (simp add: reasoning_stage_def extraction_stage_def act_bind_def act_seq_def s key ans(1))
       (rule exI, rule refl)
  then show ?thesis using decide_returns [OF assms ans(2)] by metis
qed

lemma process_returns:
  assumes ok: "services_ok e" and store: "store_ok (files w csv_path)"
    and home: "py_rstrip (user_livingAdd f) \<notin> set na_values"
    and work: "py_rstrip (user_workAdd f) \<notin> set na_values"
  shows "\<exists>w'. process e (form_row f) w = (Inr (), w')"
proof -
  let ?u = "times_to_str (form_row f)"
  obtain w1 where app: "append_to_csv e ?u filename w = (Inr (), w1)"
    by (simp add: append_to_csv_files)
  have res: "resolve (cwd e) filename = csv_path"
    using ok by (simp add: services_ok_def resolve_filename_eq_csv_path)
  then have "store_ok (files w (resolve (cwd e) filename))" using store by simp
  from append_to_csv_at [OF profile_columns_times_to_str [of f] this]
  obtain t where t: "files w1 csv_path = Some (t @ [csv_line ?u])" and wf: "csv_wf t"
    using app res by auto
  have gu: "get_user_info w1 = (Inr (read_back ?u), w1)"
    using t last_row_read_back [OF wf profile_columns_times_to_str] by (simp add: get_user_info_def)
  obtain m w2 where eta: "get_eta e (PStr (py_rstrip (user_livingAdd f))) (PStr (py_rstrip (user_workAdd f)))
      (google_maps_api_key e) w1 = (Inr m, w2)"
    using get_eta_returns [OF ok] by blast
  obtain w3 where st: "act_bind (reasoning_stage e ?u m)
      (\<lambda>output. act_bind (extraction_stage e output) (decide e)) w2 = (Inr (), w3)"
    using stages_return [OF ok] by blast
  show ?thesis
    using app gu eta st
    by (simp add: process_def Let_def act_seq_def act_bind_def dict_get_read_back_form read_cell_PStr home work)
qed

lemma last_row_rows:
  assumes "csv_wf t" and "2 \<le> length t"
  shows "\<exists>row. last_row (Some t) = Inr row"
proof (cases t)
  case Nil
  then show ?thesis using assms(2) by simp
next
  case (Cons h rows)
  with assms have "rows \<noteq> []" "h = profile_columns" "\<forall>r \<in> set rows. length r = 8"
    by (auto simp: csv_wf_def list_all_iff)
  then show ?thesis using Cons by (simp add: last_row_def list_all_iff)
qed

lemma run_script_returns:
  assumes ok: "services_ok e" and store: "files w csv_path = Some t" and wf: "csv_wf t" and rows: "2 \<le> length t"
    and sub: "submit_button f"
    and home: "py_rstrip (user_livingAdd f) \<notin> set na_values"
    and work: "py_rstrip (user_workAdd f) \<notin> set na_values"
  shows "\<exists>w'. run_script e f w = (Inr (), w')"
proof -
  obtain row where row: "last_row (Some t) = Inr row" using last_row_rows [OF wf rows] by blast
  let ?w1 = "w\<lparr>events := events w @ [Title ''Dev300 - Dynamic Alarm Project'',
      Markdown ''Fill out the form below to get started!'', Write ''Thank you for submitting your information!'']\<rparr>"
  have "store_ok (files ?w1 csv_path)" using store wf by (simp add: store_ok_def)
  then obtain w' where "process e (form_row f) ?w1 = (Inr (), w')"
    using process_returns [OF ok _ home work] by blast
  then show ?thesis
    using row store sub by (simp add: run_script_def user_input_def act_seq_def act_bind_def get_user_info_def)
qed

lemma demo_services_ok: "a \<noteq> ''TRUE'' \<Longrightarrow> services_ok (demo_ext a)"
  by (simp add: services_ok_def reply_ok_def demo_ext_def sample_reply_def sample_data_def
      first_leg_def leg_ok_def reported_seconds_def value_of_def chat_model_def openai_api_key_def
      load_dotenv_def)

section \<open>What a run does to the files\<close>

lemma get_eta_files: "get_eta e h a k w = (r, w') \<Longrightarrow> files w' = files w"
  by (cases h; cases a)
     (auto simp: get_eta_def directions_reply_def act_bind_def act_seq_def
           split: sum.splits option.splits if_splits prod.splits)

lemma reasoning_stage_files: "reasoning_stage e u eta w = (r, w') \<Longrightarrow> files w' = files w"
  by (auto simp: reasoning_stage_def act_bind_def act_seq_def split: sum.splits prod.splits)

lemma extraction_stage_files: "extraction_stage e s w = (r, w') \<Longrightarrow> files w' = files w"
  by (auto simp: extraction_stage_def act_bind_def act_seq_def split: sum.splits prod.splits)

lemma decide_files: "decide e s w = (r, w') \<Longrightarrow> files w' = files w"
  by (auto simp: decide_def trigger_alarm_def act_bind_def split: sum.splits option.splits if_splits prod.splits)

lemma process_files:
  "process e u w = (r, w') \<Longrightarrow> files w' = files (snd (append_to_csv e (times_to_str u) filename w))"
  by (auto simp: process_def Let_def act_seq_def act_bind_def append_to_csv_files get_user_info_def
      split: sum.splits prod.splits
      dest!: get_eta_files reasoning_stage_files extraction_stage_files decide_files)

text \<open>A run changes the files only by the append of a submitted profile.\<close>

lemma run_script_files:
  "run_script e f w = (r, w') \<Longrightarrow>
   files w' = files w \<or> files w' = files (snd (append_to_csv e (times_to_str (form_row f)) filename w))"
  by (auto simp: run_script_def user_input_def act_seq_def act_bind_def get_user_info_def append_to_csv_files
      split: sum.splits prod.splits if_splits dest!: process_files)

text \<open>The title and the introduction, the page every run starts with.\<close>

abbreviation page_intro :: "event list" where
  "page_intro \<equiv> [Title ''Dev300 - Dynamic Alarm Project'', Markdown ''Fill out the form below to get started!'']"

lemma run_script_no_store:
  "files w csv_path = None \<Longrightarrow> run_script e f w = (Inl FileNotFoundError, w\<lparr>events := events w @ page_intro\<rparr>)"
  by (simp add: run_script_def act_seq_def act_bind_def get_user_info_def last_row_def)

section \<open>Sessions: one run after another\<close>

text \<open>Streamlit runs the whole script again on every interaction; the files persist
  between runs.  \<open>session e w w'\<close>: some sequence of runs, with any forms, leads from
  \<open>w\<close> to \<open>w'\<close>.\<close>

inductive session :: "ext \<Rightarrow> world \<Rightarrow> world \<Rightarrow> bool" for e where
  session_refl: "session e w w"
| session_run: "run_script e f w = (r, w1) \<Longrightarrow> session e w1 w2 \<Longrightarrow> session e w w2"

section \<open>The end of a run that returns\<close>

text \<open>The events that acting on a decision shows (lines 196--203): the alarm command and
  its confirmation, or the message that nothing changes.\<close>

abbreviation acted :: "decision \<Rightarrow> event list" where
  "acted d \<equiv>
     (if change_alarm d
      then (case new_wake_up_time d of
              None \<Rightarrow> []
            | Some t \<Rightarrow> [Exec (alarm_argv t), Success (''Alarm has been set to '' @ t @ ''.'')])
      else [Info ''Nothing to change, you should be all set!''])"

lemma decide_events:
  assumes "decide e s w = (Inr (), w')"
  shows "\<exists>d. parse_decision s = Inr d \<and> events w' = events w @ acted d"
proof -
  from act_bind_InrD [OF assms [unfolded decide_def]] obtain d w1
    where p: "act_lift (parse_decision s) w = (Inr d, w1)" and t: "trigger_alarm e d w1 = (Inr (), w')"
    by blast
  from p have "parse_decision s = Inr d" "w1 = w" by (cases "parse_decision s"; simp add: act_lift_def)+
  moreover from t have "events w' = events w1 @ acted d"
    by (auto simp: trigger_alarm_def act_bind_def emit_def call_def act_raise_def
             split: option.splits if_splits sum.splits prod.splits)
  ultimately show ?thesis by blast
qed

lemma extraction_stage_events:
  "extraction_stage e out w = (Inr s, w') \<Longrightarrow>
   \<exists>p. events w' = events w @ [LlmCall p, Info (''Parser:'' @ nl @ s)]"
  unfolding extraction_stage_def
  by (auto simp: act_lift_def emit_def call_def act_return_def act_raise_def
      dest!: act_bind_InrD act_seq_InrD split: sum.splits)

lemma reasoning_stage_events:
  "reasoning_stage e u eta w = (Inr r, w') \<Longrightarrow> \<exists>evs. events w' = events w @ evs \<and> execs evs = []"
  unfolding reasoning_stage_def
  by (auto simp: act_lift_def emit_def call_def act_return_def act_raise_def
      dest!: act_bind_InrD act_seq_InrD split: sum.splits)
lemma process_events:
  assumes "process e u w = (Inr (), w')"
  shows "\<exists>pre s d. events w' = events w @ pre @ Info (''Parser:'' @ nl @ s) # acted d \<and>
           parse_decision s = Inr d \<and> execs pre = []"
proof -
  from act_seq_InrD [OF assms [unfolded process_def Let_def]] obtain x1 w1 where
    s1: "append_to_csv e (times_to_str u) filename w = (Inr x1, w1)" and
    t1: "act_bind get_user_info (\<lambda>q. act_bind (act_lift (dict_get q ''livingAdd'')) (\<lambda>h.
           act_bind (act_lift (dict_get q ''workAdd'')) (\<lambda>a.
           act_bind (get_eta e h a (google_maps_api_key e)) (\<lambda>eta.
           act_bind (reasoning_stage e (times_to_str u) eta) (\<lambda>output.
           act_bind (extraction_stage e output) (decide e)))))) w1 = (Inr (), w')"
    by blast
  from act_bind_InrD [OF t1] obtain q w2 where s2: "get_user_info w1 = (Inr q, w2)" and
    t2: "act_bind (act_lift (dict_get q ''livingAdd'')) (\<lambda>h.
           act_bind (act_lift (dict_get q ''workAdd'')) (\<lambda>a.
           act_bind (get_eta e h a (google_maps_api_key e)) (\<lambda>eta.
           act_bind (reasoning_stage e (times_to_str u) eta) (\<lambda>output.
           act_bind (extraction_stage e output) (decide e))))) w2 = (Inr (), w')"
    by blast
  from act_bind_InrD [OF t2] obtain h w3 where s3: "act_lift (dict_get q ''livingAdd'') w2 = (Inr h, w3)" and
    t3: "act_bind (act_lift (dict_get q ''workAdd'')) (\<lambda>a.
           act_bind (get_eta e h a (google_maps_api_key e)) (\<lambda>eta.
           act_bind (reasoning_stage e (times_to_str u) eta) (\<lambda>output.
           act_bind (extraction_stage e output) (decide e)))) w3 = (Inr (), w')"
    by blast
  from act_bind_InrD [OF t3] obtain a w4 where s4: "act_lift (dict_get q ''workAdd'') w3 = (Inr a, w4)" and
    t4: "act_bind (get_eta e h a (google_maps_api_key e)) (\<lambda>eta.
           act_bind (reasoning_stage e (times_to_str u) eta) (\<lambda>output.
           act_bind (extraction_stage e output) (decide e))) w4 = (Inr (), w')"
    by blast
  from act_bind_InrD [OF t4] obtain eta w5 where s5: "get_eta e h a (google_maps_api_key e) w4 = (Inr eta, w5)" and
    s6: "act_bind (reasoning_stage e (times_to_str u) eta) (\<lambda>output.
           act_bind (extraction_stage e output) (decide e)) w5 = (Inr (), w')"
    by blast
  from act_bind_InrD [OF s6] obtain out w6 where
    r: "reasoning_stage e (times_to_str u) eta w5 = (Inr out, w6)" and
    t6: "act_bind (extraction_stage e out) (decide e) w6 = (Inr (), w')"
    by blast
  from act_bind_InrD [OF t6] obtain s w7 where
    x: "extraction_stage e out w6 = (Inr s, w7)" and d: "decide e s w7 = (Inr (), w')"
    by blast
  have "events w1 = events w" using s1 by (auto simp: append_to_csv_files)
  moreover have "events w2 = events w1" "w3 = w2" "w4 = w3" using s2 s3 s4
    by (simp_all add: get_user_info_def act_lift_def split: prod.splits)
  moreover obtain evs5 where "events w5 = events w4 @ evs5" "execs evs5 = []"
    using get_eta_events [OF s5] by blast
  moreover obtain evs6 where "events w6 = events w5 @ evs6" "execs evs6 = []"
    using reasoning_stage_events [OF r] by blast
  moreover obtain p where "events w7 = events w6 @ [LlmCall p, Info (''Parser:'' @ nl @ s)]"
    using extraction_stage_events [OF x] by blast
  moreover obtain dd where "parse_decision s = Inr dd" "events w' = events w7 @ acted dd"
    using decide_events [OF d] by blast
  ultimately show ?thesis
    by (intro exI [of _ "evs5 @ evs6 @ [LlmCall p]"] exI [of _ s] exI [of _ dd]) simp
qed
lemma run_script_submitted:
  assumes "run_script e f w = (Inr (), w')" and "submit_button f"
  shows "\<exists>w1. events w1 = events w @ [Title ''Dev300 - Dynamic Alarm Project'',
            Markdown ''Fill out the form below to get started!'',
            Write ''Thank you for submitting your information!''] \<and>
          process e (form_row f) w1 = (Inr (), w')"
  using assms
  by (auto simp: run_script_def user_input_def emit_def act_return_def get_user_info_def
      dest!: act_seq_InrD act_bind_InrD)
     (rule exI, rule conjI [rotated], assumption, simp)

end
