(* ===== verification/Spec2Isabelle.thy ===== *)
theory Spec2Isabelle
  imports Pipeline
begin

text \<open>
  \<^bold>\<open>Dynamic Alarm: a verification development.\<close>
  The program is one Streamlit script, \<^verbatim>\<open>src/SourceCode/Source Code/app.py\<close>.  Each
  Streamlit run executes the module top to bottom: it shows a title and an introduction,
  reads the last profile of \<^verbatim>\<open>/Database/user_info.csv\<close> (line 117), shows the profile
  form (\<^verbatim>\<open>user_input\<close>), and when the form is submitted converts the time columns to
  strings, appends the profile to \<^verbatim>\<open>user_info.csv\<close> (\<^verbatim>\<open>append_to_csv\<close>), reads
  the last profile back (\<^verbatim>\<open>get_user_info\<close>), asks the Google Directions API for the
  commute (\<^verbatim>\<open>get_eta\<close>), asks a chat model for a reasoned wake-up time and then for
  a canonical answer \<^verbatim>\<open>TRUE, <time>\<close> or \<^verbatim>\<open>FALSE\<close>, parses that answer and
  either runs \<^verbatim>\<open>./setAlarm.sh <time>\<close> or reports that nothing changes.

  \<^bold>\<open>Theories.\<close>
  \<^item> \<open>Prelude\<close>: Python exceptions (\<open>py_error\<close>), the result type \<open>py_error + 'a\<close>
    and the world-passing actions \<open>('s, 'a) act\<close> with \<open>act_bind\<close>, which keep the
    effects that happened before an exception as Python does.
  \<^item> \<open>PyStr\<close>: the Python builtins the script relies on, translated from their
    documented behaviour: \<^verbatim>\<open>str.split\<close> with a separator (\<open>py_split\<close>,
    \<open>split_go\<close>), \<^verbatim>\<open>join\<close>, \<^verbatim>\<open>rstrip\<close>, list indexing with negative indices and
    \<^verbatim>\<open>IndexError\<close> (\<open>py_index\<close>), \<^verbatim>\<open>str\<close> of an integer; and their laws
    (\<open>join\<close> inverts \<open>split\<close>, a separator-free string splits to itself).
  \<^item> \<open>Json\<close>: decoded JSON values and the subscripts \<^verbatim>\<open>d[k]\<close>, \<^verbatim>\<open>l[i]\<close>,
    \<^verbatim>\<open>d.get\<close> and \<^verbatim>\<open>//\<close> with their \<^verbatim>\<open>KeyError\<close>, \<^verbatim>\<open>TypeError\<close>,
    \<^verbatim>\<open>AttributeError\<close> branches.
  \<^item> \<open>World\<close>: the state of a run (\<open>world\<close>: the files and the list of observable
    events: widgets shown, requests sent, commands started) and its surroundings as
    fields of \<open>ext\<close> (working directory, process environment and \<^verbatim>\<open>.env\<close> file,
    HTTP, chat model, alarm script); \<open>load_dotenv\<close>, \<open>openai_api_key\<close> and
    \<open>google_maps_api_key\<close> are lines 17--20.  The services are arbitrary functions:
    every theorem not about a sample holds for every behaviour of them.
  \<^item> \<open>Decision\<close>: the Decision Parser (lines 191--194, \<open>parse_decision\<close>) and the
    Action Trigger (lines 196--203, \<open>trigger_alarm\<close>), with the parse of well-formed
    answers, the one answer that raises, the truncation of times that contain
    \<^verbatim>\<open>", "\<close>, the round trip with the canonical rendering of the specification,
    and the exit status of the alarm script being ignored.
  \<^item> \<open>Url\<close>: \<^verbatim>\<open>urllib.parse.quote\<close> with \<^verbatim>\<open>safe='/'\<close> (UTF-8, then percent
    escapes) and its inverse \<open>unquote\<close>, with the round trip.
  \<^item> \<open>Commute\<close>: the Commute Estimator \<^verbatim>\<open>get_eta\<close> (lines 83--114): the
    request URL and its decoding by the receiver, the estimate with and without
    traffic, the unavailable estimate on a non-200 or non-OK answer, and the
    exceptions that escape (transport error, the eagerly evaluated default
    \<^verbatim>\<open>legs['duration']\<close>, a non-string address), the exact condition under which it
    raises (\<open>reply_ok\<close>, the well-formed answers) and the floor-division bounds of
    the minutes.
  \<^item> \<open>Profile\<close>: the form (lines 30--58, \<open>user_input\<close>, \<open>form_row\<close>), the
    conversion of the time columns (lines 124--126), and the CSV store
    (\<open>append_to_csv\<close>, \<open>get_user_info\<close>, lines 61--80) as a map from paths to
    tables of cell texts: the header is written only when the file is created, the
    read uses pandas' NA texts and \<^verbatim>\<open>iloc[-1]\<close>.  Its lemmas: the store stays well
    formed, an append adds exactly its row (with the header only
    for a new file), a row appended reads back as itself, and the relative write path
    against the absolute read path.
  \<^item> \<open>Prompts\<close>: \<^verbatim>\<open>json.dumps(..., indent=2)\<close> of the profile records and the two
    prompt texts byte for byte (lines 136--187); the time conversion is what makes
    the encoding of a submitted profile succeed.
  \<^item> \<open>Pipeline\<close>: the two model stages, \<open>decide\<close>, \<open>process\<close> (lines 121--203)
    and \<open>run_script\<close> (the whole module), composed with \<open>act_bind\<close> in the order of
    the source; the specification's state machine as the inductive relation
    \<open>spec_step\<close> on phases labelled by events, its closure \<open>spec_run\<close>, and the
    simulation \<open>runs\<close> by which each stage is shown to refine its part of the
    machine (\<open>runs_get_eta\<close>, \<open>runs_reasoning_stage\<close>, \<open>runs_extraction_stage\<close>,
    \<open>runs_trigger_alarm\<close>, \<open>runs_process\<close>, \<open>runs_run_script\<close>).  A sample
    installation (\<open>demo_ext\<close>, \<open>demo_world\<close>) runs the scenario of the
    specification.  \<open>chat_model\<close> is the key check of \<^verbatim>\<open>ChatOpenAI\<close>.  The
    progress lemmas (\<open>get_eta_returns\<close>, \<open>stages_return\<close>, \<open>process_returns\<close>,
    \<open>run_script_returns\<close>) give the conditions under which a run returns
    (\<open>services_ok\<close>); \<open>process_events\<close> and \<open>run_script_submitted\<close> give the
    events with which a run that returns ends; \<open>session\<close> is the closure of runs, as Streamlit reruns the
    script on every interaction with the files kept between runs.
  \<^item> This theory: the properties of the whole script: the refinement of the state
    machine, the safety of the alarm command (at most one, and only for a time the
    user was shown), progress of a submitted run under well-behaved surroundings, the
    stop at start-up when the store cannot be read, the behaviour without an OpenAI
    key, that a submitted run ends by doing what the shown answer says, and over sessions of many runs the well-formedness of the
    store and the fact that a fresh installation never gets past its start.

  \<^bold>\<open>Termination and fuel.\<close>  The script has no loop of its own; every recursive
  definition of the model (\<open>split_go\<close>, the UTF-8 and percent codecs,
  \<open>nat_digits\<close>, \<open>all_ok\<close>, the JSON printer) is structural, so every
  definition is total and no fuel is used.  Sessions are an inductive relation, not a loop: properties
  over them are proved by rule induction.

  \<^bold>\<open>Not modelled.\<close>  The rendering of the widgets (an event records what is
  shown, not how); pandas' type inference on reading (a cell is read back as text, or
  NaN for the NA texts; numbers are not converted) and CSV quoting of cells that
  contain commas or quotes; JSON numbers other than integers; characters above
  code 255 (Isabelle's \<open>char\<close> is a byte); the implementation of the library functions
  the script calls (CPython's \<^verbatim>\<open>str.split\<close> loop is replaced by the scanner
  \<open>split_go\<close> of its documented behaviour); the chat model, the Directions service and
  the alarm script themselves, which are parameters; how \<^verbatim>\<open>load_dotenv\<close> finds the
  \<^verbatim>\<open>.env\<close> file and parses it (its variables are given); the widget state Streamlit
  keeps between reruns (each run receives its form values).
\<close>

section \<open>Properties of the whole script\<close>

text \<open>
  C1: every run of the script, whatever the form, the services and the store, shows
  a sequence of events that the specification's state machine accepts from its initial
  state; a run that returns without an exception ends in a terminal state: the page
  shown without a submission, the alarm set, or nothing to change.
\<close>

theorem run_script_refines_spec:
  assumes "run_script e f w = (r, w')"
  shows "\<exists>evs q. events w' = events w @ evs \<and> spec_run Idle evs q \<and> (r = Inr () \<longrightarrow> terminal q)"
  using runs_run_script [of e f] assms unfolding runs_def by blast

theorem run_script_refines_spec_witness:
  "\<exists>evs q. events (snd (run_script (demo_ext ''FALSE'') sample_form demo_world)) = events demo_world @ evs \<and>
     spec_run Idle evs q \<and> terminal q"
proof -
  let ?w' = "snd (run_script (demo_ext ''FALSE'') sample_form demo_world)"
  have r: "run_script (demo_ext ''FALSE'') sample_form demo_world = (Inr (), ?w')"
    by (simp add: run_script_demo decide_def parse_decision_def py_split_def py_index_def trigger_alarm_def)
  show ?thesis using run_script_refines_spec [OF r] by simp
qed

text \<open>
  C2: the alarm script is started at most once per run, and only with a time that the
  user was shown: if \<^verbatim>\<open>./setAlarm.sh\<close> is run with \<open>t\<close>, the run showed a
  \<^verbatim>\<open>Parser:\<close> answer that parses to the decision to change the alarm to \<open>t\<close>.
\<close>

theorem run_script_alarm_safety:
  assumes "run_script e f w = (r, w')"
  shows "\<exists>evs. events w' = events w @ evs \<and>
    (execs evs = [] \<or>
     (\<exists>s t. execs evs = [alarm_argv t] \<and> Info (''Parser:'' @ nl @ s) \<in> set evs \<and>
        parse_decision s = Inr \<lparr>change_alarm = True, new_wake_up_time = Some t\<rparr>))"
proof -
  obtain evs q where ev: "events w' = events w @ evs" and run: "spec_run Idle evs q"
    using runs_run_script [of e f] assms unfolding runs_def by blast
  show ?thesis using spec_run_execs [OF run] ev by blast
qed

theorem run_script_alarm_safety_witness:
  "\<exists>evs. events (snd (run_script (demo_ext ''TRUE, 7:00am'') sample_form demo_world)) =
      events demo_world @ evs \<and>
    (execs evs = [] \<or>
     (\<exists>s t. execs evs = [alarm_argv t] \<and> Info (''Parser:'' @ nl @ s) \<in> set evs \<and>
        parse_decision s = Inr \<lparr>change_alarm = True, new_wake_up_time = Some t\<rparr>))"
  using run_script_alarm_safety [of "demo_ext ''TRUE, 7:00am''" sample_form demo_world
      "fst (run_script (demo_ext ''TRUE, 7:00am'') sample_form demo_world)"
      "snd (run_script (demo_ext ''TRUE, 7:00am'') sample_form demo_world)"]
  by simp

text \<open>
  C11: a submitted run that returns normally acts on the answer it shows: its last
  events are the \<^verbatim>\<open>Parser:\<close> answer of the second chain (line 189), then, for the
  decision that answer parses to (line 192), the alarm command and the confirmation when
  the decision is to change the alarm (lines 196--200) or the message that nothing
  changes (lines 202--203); no process is started before the answer is shown.
\<close>

theorem run_script_acts_on_answer:
  assumes "run_script e f w = (Inr (), w')" and "submit_button f"
  shows "\<exists>pre s d. events w' = events w @ pre @ Info (''Parser:'' @ nl @ s) # acted d \<and>
           parse_decision s = Inr d \<and> execs pre = []"
proof -
  obtain w1 where w1: "events w1 = events w @ [Title ''Dev300 - Dynamic Alarm Project'',
        Markdown ''Fill out the form below to get started!'',
        Write ''Thank you for submitting your information!'']"
    and p: "process e (form_row f) w1 = (Inr (), w')"
    using run_script_submitted [OF assms] by blast
  obtain pre s d where "events w' = events w1 @ pre @ Info (''Parser:'' @ nl @ s) # acted d"
    "parse_decision s = Inr d" "execs pre = []"
    using process_events [OF p] by blast
  with w1 show ?thesis
    by (intro exI [of _ "[Title ''Dev300 - Dynamic Alarm Project'',
        Markdown ''Fill out the form below to get started!'',
        Write ''Thank you for submitting your information!''] @ pre"]) auto
qed

theorem run_script_acts_on_answer_witness:
  "submit_button sample_form \<and>
   run_script (demo_ext ''TRUE, 7:00am'') sample_form demo_world =
     (Inr (), snd (run_script (demo_ext ''TRUE, 7:00am'') sample_form demo_world)) \<and>
   (\<exists>pre s d. events (snd (run_script (demo_ext ''TRUE, 7:00am'') sample_form demo_world)) =
       events demo_world @ pre @ Info (''Parser:'' @ nl @ s) # acted d \<and>
       parse_decision s = Inr d \<and> execs pre = [])"
proof -
  let ?w' = "snd (run_script (demo_ext ''TRUE, 7:00am'') sample_form demo_world)"
  have r: "run_script (demo_ext ''TRUE, 7:00am'') sample_form demo_world = (Inr (), ?w')"
    by (simp add: run_script_demo decide_def parse_decision_def py_split_def py_index_def
        trigger_alarm_def demo_ext_fields act_bind_def call_def)
  show ?thesis using r submit_sample_form run_script_acts_on_answer [OF r submit_sample_form] by blast
qed

text \<open>
  C7: the module-level read of the store (line 117) runs before the form is processed:
  when it raises (no file at \<^verbatim>\<open>/Database/user_info.csv\<close>, an empty file, a header
  without rows), the run stops there with that exception after the title and the
  introduction, whatever is submitted; nothing is stored, so on a fresh installation
  no submission ever reaches the store.
\<close>

theorem run_script_startup_crash:
  assumes "fst (get_user_info w) = Inl err"
  shows "run_script e f w =
    (Inl err, w\<lparr>events := events w @ [Title ''Dev300 - Dynamic Alarm Project'',
                                     Markdown ''Fill out the form below to get started!'']\<rparr>)"
  using assms by (simp add: run_script_def act_seq_def act_bind_def get_user_info_def)

theorem run_script_startup_crash_witness:
  "run_script sample_ext sample_form world0 =
    (Inl FileNotFoundError, world0\<lparr>events := events world0 @ [Title ''Dev300 - Dynamic Alarm Project'',
                                     Markdown ''Fill out the form below to get started!'']\<rparr>)"
proof -
  have "fst (get_user_info world0) = Inl FileNotFoundError"
    by (simp add: get_user_info_def last_row_def world0_def)
  then show ?thesis by (rule run_script_startup_crash)
qed

text \<open>
  C13: without a usable OpenAI key (unset in the environment and in \<^verbatim>\<open>.env\<close>, or
  empty) no prompt is ever sent and no alarm is ever set: a submitted form ends the
  run with an exception, raised when the first chain is built, after the profile
  is stored and the commute requested.
\<close>

theorem run_script_no_openai_key:
  assumes "chat_model e \<noteq> Inr ()" and "run_script e f w = (r, w')"
  shows "(submit_button f \<longrightarrow> r \<noteq> Inr ()) \<and>
    (\<exists>evs. events w' = events w @ evs \<and> prompts_sent evs = [] \<and> execs evs = [])"
proof -
  let ?w1 = "w\<lparr>events := events w @ [Title ''Dev300 - Dynamic Alarm Project'',
                 Markdown ''Fill out the form below to get started!'']\<rparr>"
  consider (crash) err where "last_row (files w csv_path) = Inl err"
    | (none) row where "last_row (files w csv_path) = Inr row" "\<not> submit_button f"
    | (sub) row where "last_row (files w csv_path) = Inr row" "submit_button f"
    by (cases "last_row (files w csv_path)") auto
  then show ?thesis
  proof cases
    case crash
    then show ?thesis using assms(2) by (auto simp: run_script_def act_seq_def act_bind_def get_user_info_def)
  next
    case none
    then show ?thesis using assms(2)
      by (auto simp: run_script_def user_input_def act_seq_def act_bind_def get_user_info_def)
  next
    case sub
    let ?w2 = "?w1\<lparr>events := events ?w1 @ [Write ''Thank you for submitting your information!'']\<rparr>"
    from sub assms(2) have "process e (form_row f) ?w2 = (r, w')"
      by (simp add: run_script_def user_input_def act_seq_def act_bind_def get_user_info_def)
    from process_no_chat_model [OF assms(1) this] show ?thesis by auto
  qed
qed

theorem run_script_no_openai_key_witness:
  "chat_model ((demo_ext ''FALSE'')\<lparr>environ := (\<lambda>_. None)\<rparr>) \<noteq> Inr () \<and>
   submit_button sample_form \<and>
   fst (run_script ((demo_ext ''FALSE'')\<lparr>environ := (\<lambda>_. None)\<rparr>) sample_form demo_world) \<noteq> Inr ()"
proof -
  let ?e = "(demo_ext ''FALSE'')\<lparr>environ := (\<lambda>_. None)\<rparr>"
  have k: "chat_model ?e \<noteq> Inr ()"
    by (simp add: chat_model_def openai_api_key_def load_dotenv_def demo_ext_def)
  show ?thesis
    using k submit_sample_form
      run_script_no_openai_key [OF k, of sample_form demo_world "fst (run_script ?e sample_form demo_world)"
        "snd (run_script ?e sample_form demo_world)"]
    by simp
qed

text \<open>
  C3: progress.  When the surroundings are well behaved (the script runs in
  \<^verbatim>\<open>/Database\<close>, the Directions answers are well formed, the OpenAI key is usable,
  the model answers every prompt and never with the bare \<^verbatim>\<open>TRUE\<close>, the alarm script
  starts), the store already holds a profile, and the form is submitted with
  addresses that pandas reads back as text, the run returns normally with the alarm
  set or nothing to change, through events the specification's machine accepts.
\<close>

theorem run_script_progress:
  assumes "services_ok e" and "files w csv_path = Some t" and "csv_wf t" and "2 \<le> length t"
    and "submit_button f"
    and "py_rstrip (user_livingAdd f) \<notin> set na_values"
    and "py_rstrip (user_workAdd f) \<notin> set na_values"
  shows "\<exists>w' evs q. run_script e f w = (Inr (), w') \<and> events w' = events w @ evs \<and>
           spec_run Idle evs q \<and> (q = AlarmSet \<or> q = NoOp)"
proof -
  obtain w' where run: "run_script e f w = (Inr (), w')"
    using run_script_returns [OF assms] by blast
  then obtain evs q where "events w' = events w @ evs" "spec_run Idle evs q"
    "if submit_button f then q = AlarmSet \<or> q = NoOp else q = PageShown"
    using runs_run_script_phase [of e f] unfolding runs_def by blast
  then show ?thesis using run assms(5) by auto
qed

theorem run_script_progress_witness:
  "services_ok (demo_ext ''TRUE, 7:00am'') \<and>
   files demo_world csv_path = Some [profile_columns, csv_line sample_profile] \<and>
   csv_wf [profile_columns, csv_line sample_profile] \<and> 2 \<le> length [profile_columns, csv_line sample_profile] \<and>
   submit_button sample_form \<and>
   py_rstrip (user_livingAdd sample_form) \<notin> set na_values \<and>
   py_rstrip (user_workAdd sample_form) \<notin> set na_values \<and>
   (\<exists>w' evs q. run_script (demo_ext ''TRUE, 7:00am'') sample_form demo_world = (Inr (), w') \<and>
      events w' = events demo_world @ evs \<and> spec_run Idle evs q \<and> (q = AlarmSet \<or> q = NoOp))"
proof -
  have ok: "services_ok (demo_ext ''TRUE, 7:00am'')" by (rule demo_services_ok) simp
  have store: "files demo_world csv_path = Some [profile_columns, csv_line sample_profile]"
    by (simp add: demo_world_def)
  have wf: "csv_wf [profile_columns, csv_line sample_profile]"
    using length_csv_line [OF sample_profile_columns] by (simp add: csv_wf_def)
  have rows: "2 \<le> length [profile_columns, csv_line sample_profile]" by simp
  have addr: "py_rstrip (user_livingAdd sample_form) \<notin> set na_values"
    "py_rstrip (user_workAdd sample_form) \<notin> set na_values"
    by (simp_all add: sample_form_def py_rstrip_def py_isspace_def na_values_def)
  show ?thesis
    using ok store wf rows submit_sample_form addr
      run_script_progress [OF ok store wf rows submit_sample_form addr]
    by blast
qed

section \<open>Properties of sessions\<close>

text \<open>
  C8: over any sequence of runs, with any forms and any behaviour of the services, every
  store file that is absent or well formed (the header of the eight profile columns,
  then rows of eight cells) stays so: the script only ever appends profile rows, and
  writes the header only when it creates the file.
\<close>

theorem session_store_ok:
  assumes "session e w w'" and "store_ok (files w p)"
  shows "store_ok (files w' p)"
  using assms
proof (induction rule: session.induct)
  case (session_refl w)
  then show ?case .
next
  case (session_run f w r w1 w2)
  have "store_ok (files w1 p)"
    using run_script_files [OF session_run.hyps(1)] session_run.prems
      store_ok_append [OF profile_columns_times_to_str [of f], of w p e filename]
    by auto
  then show ?case by (rule session_run.IH)
qed

theorem session_store_ok_witness:
  "session (demo_ext ''FALSE'') demo_world (snd (run_script (demo_ext ''FALSE'') sample_form demo_world)) \<and>
   store_ok (files demo_world csv_path) \<and>
   store_ok (files (snd (run_script (demo_ext ''FALSE'') sample_form demo_world)) csv_path)"
proof -
  let ?e = "demo_ext ''FALSE''"
  have s: "session ?e demo_world (snd (run_script ?e sample_form demo_world))"
    by (rule session_run [of ?e sample_form demo_world "fst (run_script ?e sample_form demo_world)"
          "snd (run_script ?e sample_form demo_world)"])
       (simp_all add: session_refl)
  have ok: "store_ok (files demo_world csv_path)"
    using length_csv_line [OF sample_profile_columns] by (simp add: demo_world_def store_ok_def csv_wf_def)
  show ?thesis using s ok session_store_ok [OF s ok] by simp
qed

text \<open>
  C6: on a fresh installation (no \<^verbatim>\<open>/Database/user_info.csv\<close>) the script never gets
  past its start: after any sequence of runs, with any forms submitted, no file has
  been written and the only events are the title and the introduction of each run.
  The store can only be created from outside the script.
\<close>

theorem fresh_install_stuck:
  assumes "session e w w'" and "files w csv_path = None"
  shows "files w' = files w \<and> (\<exists>n. events w' = events w @ concat (replicate n page_intro))"
  using assms
proof (induction rule: session.induct)
  case (session_refl w)
  have "events w = events w @ concat (replicate 0 page_intro)" by simp
  then show ?case by blast
next
  case (session_run f w r w1 w2)
  have w1: "w1 = w\<lparr>events := events w @ page_intro\<rparr>"
    using session_run.hyps(1) run_script_no_store [OF session_run.prems] by simp
  then have "files w1 csv_path = None" using session_run.prems by simp
  then obtain n where "files w2 = files w1" "events w2 = events w1 @ concat (replicate n page_intro)"
    using session_run.IH by blast
  then have "events w2 = events w @ concat (replicate (Suc n) page_intro)" "files w2 = files w"
    using w1 by simp_all
  then show ?case by blast
qed

theorem fresh_install_stuck_witness:
  "session sample_ext world0 (snd (run_script sample_ext sample_form world0)) \<and> files world0 csv_path = None \<and>
   files (snd (run_script sample_ext sample_form world0)) = files world0 \<and>
   (\<exists>n. events (snd (run_script sample_ext sample_form world0)) = events world0 @ concat (replicate n page_intro))"
proof -
  have s: "session sample_ext world0 (snd (run_script sample_ext sample_form world0))"
    by (rule session_run [of sample_ext sample_form world0 "fst (run_script sample_ext sample_form world0)"
          "snd (run_script sample_ext sample_form world0)"])
       (simp_all add: session_refl)
  have n: "files world0 csv_path = None" by (simp add: world0_def)
  show ?thesis using s n fresh_install_stuck [OF s n] by simp
qed

end
